theory Spec2Isabelle
  imports Complex_Main "HOL-Library.Word" "HOL-Library.Log_Nat"
begin

section \<open>Python values and builtins used by the exporter\<close>

text \<open>
  The exporter is one Python module, \<^verbatim>\<open>main.py\<close>. Python integers are unbounded and are
  modelled by \<^typ>\<open>int\<close>; a \<^verbatim>\<open>str\<close> is a \<^typ>\<open>string\<close> whose characters are code points
  below 256. Every exception the module can raise is a value of \<open>error\<close>; the generic
  \<^verbatim>\<open>Exception(...)\<close> raised by the demand check carries the values its message is built from
  (computed demand, multiplier, divisor, timestamp, raw document).
\<close>

datatype error =
    UnicodeDecodeError
  | ParseError
  | JSONDecodeError
  | ValueError
  | TypeError
  | AttributeError
  | KeyError
  | ZeroDivisionError
  | OverflowError
  | DemandException rat int int int string

subsection \<open>\<^verbatim>\<open>int(s, base)\<close>\<close>

text \<open>
  \<^verbatim>\<open>int\<close> on a string skips white space at both ends, reads an optional sign, for base 16
  an optional \<^verbatim>\<open>0x\<close>/\<^verbatim>\<open>0X\<close> prefix (one underscore may follow it), and then at least one
  digit, where single underscores may stand between digits. Anything else raises
  \<^verbatim>\<open>ValueError\<close>. The white space that \<^verbatim>\<open>int\<close> skips is, below code point 256, the
  characters 9 to 13, the space, 133 and 160. The program calls \<^verbatim>\<open>int\<close> with the bases 10 and 16 only. The interpreter's optional
  limit on the number of digits of a decimal string is a setting of the interpreter and is
  not part of the model.
\<close>

definition is_space :: "char \<Rightarrow> bool" where
  "is_space c =
     (let n = (of_char c :: nat)
      in (9 \<le> n \<and> n \<le> 13) \<or> n = 32 \<or> n = 133 \<or> n = 160)"

definition strip :: "string \<Rightarrow> string" where
  "strip s = rev (dropWhile is_space (rev (dropWhile is_space s)))"

definition rstrip :: "char \<Rightarrow> string \<Rightarrow> string" where
  "rstrip ch s = rev (dropWhile (\<lambda>c. c = ch) (rev s))"

definition digit_value :: "char \<Rightarrow> nat" where
  "digit_value c =
     (let n = (of_char c :: nat)
      in if 48 \<le> n \<and> n \<le> 57 then n - 48
         else if 97 \<le> n \<and> n \<le> 122 then n - 87
         else if 65 \<le> n \<and> n \<le> 90 then n - 55
         else 37)"

fun scan_digits :: "nat \<Rightarrow> char \<Rightarrow> string \<Rightarrow> nat \<Rightarrow> nat option" where
  "scan_digits base prev [] acc = (if prev = CHR ''_'' then None else Some acc)"
| "scan_digits base prev (c # cs) acc =
     (if c = CHR ''_'' then (if prev = CHR ''_'' then None else scan_digits base c cs acc)
      else if digit_value c < base then scan_digits base c cs (acc * base + digit_value c)
      else None)"

definition py_int :: "nat \<Rightarrow> string \<Rightarrow> error + int" where
  "py_int base s =
     (let s1 = strip s;
          negative = (take 1 s1 = ''-'');
          s2 = (if take 1 s1 = ''+'' \<or> take 1 s1 = ''-'' then drop 1 s1 else s1);
          s3 = (if base = 16 \<and> (take 2 s2 = ''0x'' \<or> take 2 s2 = ''0X'')
                then (let r = drop 2 s2 in if take 1 r = ''_'' then drop 1 r else r)
                else s2)
      in if s3 = [] \<or> take 1 s3 = ''_'' then Inl ValueError
         else (case scan_digits base (CHR 0x00) s3 0 of
                 None \<Rightarrow> Inl ValueError
               | Some n \<Rightarrow> Inr (if negative then - int n else int n)))"

subsection \<open>True division\<close>

text \<open>
  \<^verbatim>\<open>a / b\<close> on two Python integers raises \<^verbatim>\<open>ZeroDivisionError\<close> for \<open>b = 0\<close> and otherwise
  returns the binary64 float nearest to the exact quotient (ties to even), or raises
  \<^verbatim>\<open>OverflowError\<close> when that float would not be finite. A float is modelled by the rational
  number it denotes; no infinity or NaN arises in the program. \<open>float_exponent a b\<close> is
  the binary exponent of the quotient (\<open>2 ^ e \<le> |a / b| < 2 ^ (e + 1)\<close>), found from the bit
  lengths of \<open>a\<close> and \<open>b\<close>; below \<open>2 ^ - 1022\<close> the spacing of the floats stays that of
  the subnormal numbers.
\<close>

definition pow2 :: "int \<Rightarrow> rat" where
  "pow2 e = (if 0 \<le> e then 2 ^ nat e else 1 / 2 ^ nat (- e))"

definition float_exponent :: "int \<Rightarrow> int \<Rightarrow> int" where
  "float_exponent a b =
     (let k = bitlen (abs a) - bitlen (abs b)
      in if pow2 k \<le> abs (of_int a / of_int b) then k else k - 1)"

definition round_half_even :: "rat \<Rightarrow> int" where
  "round_half_even x =
     (let f = \<lfloor>x\<rfloor>; d = x - of_int f
      in if d < 1 / 2 then f else if 1 / 2 < d then f + 1
         else if even f then f else f + 1)"

definition binary64 :: "int \<Rightarrow> int \<Rightarrow> rat" where
  "binary64 a b =
     (let e = max (float_exponent a b) (- 1022);
          ulp = pow2 (e - 52)
      in of_int (round_half_even (of_int a / of_int b / ulp)) * ulp)"

definition truediv :: "int \<Rightarrow> int \<Rightarrow> error + rat" where
  "truediv a b =
     (if b = 0 then Inl ZeroDivisionError
      else (let r = binary64 a b
            in if 2 ^ 1024 \<le> abs r then Inl OverflowError else Inr r))"

section \<open>Module-level functions\<close>

definition utc2000_to_epoch :: "int \<Rightarrow> int" where
  "utc2000_to_epoch seconds = (let unix2000_time = 946684800 in seconds + unix2000_time)"

definition convert_hex_to_int :: "string \<Rightarrow> error + int" where
  "convert_hex_to_int hex_num =
     (case py_int 16 (drop 2 hex_num) of
        Inl e \<Rightarrow> Inl e
      | Inr v \<Rightarrow> Inr (if 0x80000000 \<le> v then v - 0x100000000 else v))"

section \<open>XML documents\<close>

text \<open>
  \<^verbatim>\<open>xml.etree.ElementTree\<close> hands the program a tree of elements, each with a tag, an
  attribute dictionary, the text before its first child (\<^verbatim>\<open>None\<close> when there is none) and
  its children in document order. The program uses three lookups: \<^verbatim>\<open>e.find("T")\<close>, the first
  child of \<open>e\<close> with tag \<open>T\<close>; \<^verbatim>\<open>e.find(".//T")\<close>, the first element with tag \<open>T\<close> among the
  descendants of \<open>e\<close> in document order; and \<^verbatim>\<open>findtext\<close>, which returns the text of the
  element found (the empty string when its text is \<^verbatim>\<open>None\<close>) and \<^verbatim>\<open>None\<close> when no element is
  found.
\<close>

datatype element =
  Element (tag: string) (attrib: "(string \<times> string) list") (elem_text: "string option")
    (children: "element list")

fun iter :: "element \<Rightarrow> element list" where
  "iter (Element t a x cs) = Element t a x cs # concat (map iter cs)"

definition find_child :: "element \<Rightarrow> string \<Rightarrow> element option" where
  "find_child e t = List.find (\<lambda>c. tag c = t) (children e)"

definition find_desc :: "element \<Rightarrow> string \<Rightarrow> element option" where
  "find_desc e t = List.find (\<lambda>c. tag c = t) (concat (map iter (children e)))"

definition text_or_empty :: "element \<Rightarrow> string" where
  "text_or_empty e = (case elem_text e of None \<Rightarrow> [] | Some s \<Rightarrow> s)"

definition findtext_child :: "element \<Rightarrow> string \<Rightarrow> string option" where
  "findtext_child e t = map_option text_or_empty (find_child e t)"

definition findtext_desc :: "element \<Rightarrow> string \<Rightarrow> string option" where
  "findtext_desc e t = map_option text_or_empty (find_desc e t)"

text \<open>
  \<^verbatim>\<open>convert_hex_to_int(sec.find(name).text)\<close> and \<^verbatim>\<open>int(sec.find(name).text, 16)\<close>: a missing
  sub-element makes \<^verbatim>\<open>.text\<close> an \<^verbatim>\<open>AttributeError\<close>, a text of \<^verbatim>\<open>None\<close> makes the slice,
  and \<^verbatim>\<open>int\<close> with a base, a \<^verbatim>\<open>TypeError\<close>.
\<close>

definition hex_field :: "element \<Rightarrow> string \<Rightarrow> error + int" where
  "hex_field sec name =
     (case find_child sec name of
        None \<Rightarrow> Inl AttributeError
      | Some e \<Rightarrow> (case elem_text e of None \<Rightarrow> Inl TypeError | Some s \<Rightarrow> convert_hex_to_int s))"

definition int16_field :: "element \<Rightarrow> string \<Rightarrow> error + int" where
  "int16_field sec name =
     (case find_child sec name of
        None \<Rightarrow> Inl AttributeError
      | Some e \<Rightarrow> (case elem_text e of None \<Rightarrow> Inl TypeError | Some s \<Rightarrow> py_int 16 s))"

section \<open>The device registry and the parser object\<close>

text \<open>
  \<^verbatim>\<open>EagleParse._global_config\<close> maps a device identity to a dictionary with the two entries
  \<^verbatim>\<open>'labels'\<close> and \<^verbatim>\<open>'state'\<close>. A label value is a string or \<^verbatim>\<open>None\<close>. The attributes
  \<^verbatim>\<open>_labels\<close> and \<^verbatim>\<open>_state\<close> of a parser are references to the two dictionaries of its
  device's entry, so a write through them is a write to the registry; entries are never
  removed or replaced, so the reference is modelled by the key of the entry. \<open>labels_ref\<close> is
  \<open>None\<close> where \<^verbatim>\<open>_labels\<close> is \<^verbatim>\<open>None\<close>, and \<open>state_ref\<close> is \<open>None\<close> where the attribute
  \<^verbatim>\<open>_state\<close> was never assigned.
\<close>

record device_state =
  device_info_received :: bool
  network_info_received :: bool

record config_entry =
  labels :: "string \<rightharpoonup> string option"
  state :: device_state

type_synonym global_config = "string \<rightharpoonup> config_entry"

record EagleParse =
  raw_xml :: string
  metric :: "string \<rightharpoonup> (string \<rightharpoonup> rat)"
  labels_ref :: "string option"
  state_ref :: "string option"
  root :: element
  timestamp :: int

text \<open>
  What the module takes from outside: the XML parser applied to the decoded request body
  (\<^verbatim>\<open>raw_xml.decode("utf-8")\<close> followed by \<^verbatim>\<open>ElementTree.fromstring\<close>, either of which may
  raise), the clock \<^verbatim>\<open>int(time.time())\<close>, and the decoded value of the environment variable
  \<^verbatim>\<open>PROMETHEUS_OPT_LABELS\<close> (\<^verbatim>\<open>json.loads\<close> may raise), a dictionary from device identity to
  extra labels.
\<close>

record environment =
  fromstring :: "string \<Rightarrow> error + element"
  time_now :: int
  prom_opt_labels :: "error + (string \<rightharpoonup> (string \<rightharpoonup> string option))"

definition set_label :: "string \<Rightarrow> string \<Rightarrow> string option \<Rightarrow> global_config \<Rightarrow> global_config" where
  "set_label k name v gc =
     (case gc k of None \<Rightarrow> gc | Some e \<Rightarrow> gc(k \<mapsto> e\<lparr>labels := (labels e)(name \<mapsto> v)\<rparr>))"

definition set_state :: "string \<Rightarrow> (device_state \<Rightarrow> device_state) \<Rightarrow> global_config \<Rightarrow> global_config" where
  "set_state k f gc = (case gc k of None \<Rightarrow> gc | Some e \<Rightarrow> gc(k \<mapsto> e\<lparr>state := f (state e)\<rparr>))"

definition EagleParse_init ::
  "environment \<Rightarrow> string \<Rightarrow> string \<Rightarrow> global_config \<Rightarrow> (error + EagleParse) \<times> global_config" where
  "EagleParse_init env raw client_host gc =
     (case fromstring env raw of
        Inl e \<Rightarrow> (Inl e, gc)
      | Inr rt \<Rightarrow>
          (case py_int 10 (rstrip (CHR ''s'')
                  (case map_of (attrib rt) ''timestamp'' of None \<Rightarrow> ''0'' | Some a \<Rightarrow> a)) of
             Inl e \<Rightarrow> (Inl e, gc)
           | Inr t \<Rightarrow>
               (let self = \<lparr>raw_xml = raw, metric = Map.empty, labels_ref = None,
                            state_ref = None, root = rt,
                            timestamp = (if t \<noteq> 0 then t else time_now env)\<rparr>
                in case findtext_desc rt ''DeviceMacId'' of
                     None \<Rightarrow> (Inr self, gc)
                   | Some device_mac_id \<Rightarrow>
                       if device_mac_id = [] then (Inr self, gc)
                       else (case gc device_mac_id of
                               Some entry \<Rightarrow>
                                 (Inr (self\<lparr>labels_ref := Some device_mac_id,
                                            state_ref := Some device_mac_id\<rparr>), gc)
                             | None \<Rightarrow>
                                 (case prom_opt_labels env of
                                    Inl e \<Rightarrow> (Inl e, gc)
                                  | Inr opt \<Rightarrow>
                                      (let labels0 = [''device_mac_id'' \<mapsto> Some device_mac_id,
                                                      ''client_host'' \<mapsto> Some client_host];
                                           labels1 = (case opt device_mac_id of
                                                        None \<Rightarrow> labels0
                                                      | Some extra \<Rightarrow> labels0 ++ extra)
                                       in (Inr (self\<lparr>labels_ref := Some device_mac_id,
                                                      state_ref := Some device_mac_id\<rparr>),
                                           gc(device_mac_id \<mapsto>
                                              \<lparr>labels = labels1,
                                               state = \<lparr>device_info_received = False,
                                                        network_info_received = False\<rparr>\<rparr>))))))))"

section \<open>The section parsers\<close>

text \<open>
  A method of the parser works on the parser object and on the registry, and either returns
  or raises. What it wrote before raising stays written, so a method is a function from the
  pair of parser and registry to an optional error and the pair as the method left it.
\<close>

type_synonym parser_state = "EagleParse \<times> global_config"

definition parse_instantaneous_demand :: "parser_state \<Rightarrow> error option \<times> parser_state" where
  "parse_instantaneous_demand s =
     (let (self, gc) = s
      in case find_desc (root self) ''InstantaneousDemand'' of
           None \<Rightarrow> (None, self, gc)
         | Some instantaneous_demand \<Rightarrow>
            (case hex_field instantaneous_demand ''Demand'' of
               Inl e \<Rightarrow> (Some e, self, gc)
             | Inr demand \<Rightarrow>
            (case hex_field instantaneous_demand ''Multiplier'' of
               Inl e \<Rightarrow> (Some e, self, gc)
             | Inr multiplier \<Rightarrow>
            (case hex_field instantaneous_demand ''Divisor'' of
               Inl e \<Rightarrow> (Some e, self, gc)
             | Inr divisor \<Rightarrow>
            (case int16_field instantaneous_demand ''TimeStamp'' of
               Inl e \<Rightarrow> (Some e, self, gc)
             | Inr t \<Rightarrow>
                (let self = self\<lparr>timestamp := utc2000_to_epoch t\<rparr>;
                     multiplier = (if multiplier \<noteq> 0 then multiplier else 1);
                     divisor = (if divisor \<noteq> 0 then divisor else 1)
                 in case truediv (demand * multiplier) divisor of
                      Inl e \<Rightarrow> (Some e, self, gc)
                    | Inr demand \<Rightarrow>
                        if demand > 1000 \<or> demand < - 1000
                        then (Some (DemandException demand multiplier divisor
                                      (timestamp self) (raw_xml self)), self, gc)
                        else (None,
                              self\<lparr>metric := (metric self)(''instantaneous_demand'' \<mapsto>
                                                  [''demand'' \<mapsto> demand])\<rparr>,
                              gc)))))))"

text \<open>
  \<^verbatim>\<open>root.find("CurrentSummationDelivered") or root.find("CurrentSummation")\<close>: the truth value
  of an element is whether it has children, so the second lookup is also taken when the first
  finds an element without children.
\<close>

definition truthy :: "element option \<Rightarrow> bool" where
  "truthy r = (case r of None \<Rightarrow> False | Some e \<Rightarrow> children e \<noteq> [])"

definition find_current_summation :: "element \<Rightarrow> element option" where
  "find_current_summation rt =
     (let first = find_child rt ''CurrentSummationDelivered''
      in if truthy first then first else find_child rt ''CurrentSummation'')"

definition parse_current_summation :: "parser_state \<Rightarrow> error option \<times> parser_state" where
  "parse_current_summation s =
     (let (self, gc) = s
      in case find_current_summation (root self) of
           None \<Rightarrow> (None, self, gc)
         | Some current_summation \<Rightarrow>
            (case hex_field current_summation ''SummationDelivered'' of
               Inl e \<Rightarrow> (Some e, self, gc)
             | Inr summation_delivered \<Rightarrow>
            (case hex_field current_summation ''SummationReceived'' of
               Inl e \<Rightarrow> (Some e, self, gc)
             | Inr summation_received \<Rightarrow>
            (case hex_field current_summation ''Multiplier'' of
               Inl e \<Rightarrow> (Some e, self, gc)
             | Inr multiplier \<Rightarrow>
            (case hex_field current_summation ''Divisor'' of
               Inl e \<Rightarrow> (Some e, self, gc)
             | Inr divisor \<Rightarrow>
            (case int16_field current_summation ''TimeStamp'' of
               Inl e \<Rightarrow> (Some e, self, gc)
             | Inr t \<Rightarrow>
                (let self = self\<lparr>timestamp := utc2000_to_epoch t\<rparr>;
                     multiplier = (if multiplier \<noteq> 0 then multiplier else 1);
                     divisor = (if divisor \<noteq> 0 then divisor else 1)
                 in case truediv (summation_delivered * multiplier) divisor of
                      Inl e \<Rightarrow> (Some e, self, gc)
                    | Inr summation_delivered \<Rightarrow>
                       (case truediv (summation_received * multiplier) divisor of
                          Inl e \<Rightarrow> (Some e, self, gc)
                        | Inr summation_received \<Rightarrow>
                            (None,
                             self\<lparr>metric := (metric self)(''current_summation'' \<mapsto>
                                      [''summation_delivered'' \<mapsto> summation_delivered,
                                       ''summation_received'' \<mapsto> summation_received])\<rparr>,
                             gc)))))))))"

definition parse_device_info :: "parser_state \<Rightarrow> error option \<times> parser_state" where
  "parse_device_info s =
     (let (self, gc) = s
      in case find_desc (root self) ''DeviceInfo'' of
           None \<Rightarrow> (None, self, gc)
         | Some device_info \<Rightarrow>
            (case state_ref self of
               None \<Rightarrow> (Some AttributeError, self, gc)
             | Some sk \<Rightarrow>
                (let gc = set_state sk (\<lambda>st. st\<lparr>device_info_received := True\<rparr>) gc
                 in case labels_ref self of
                      None \<Rightarrow> (Some TypeError, self, gc)
                    | Some lk \<Rightarrow>
                       (let gc = set_label lk ''fw_version'' (findtext_child device_info ''FWVersion'') gc;
                            gc = set_label lk ''hw_version'' (findtext_child device_info ''HWVersion'') gc;
                            gc = set_label lk ''manufacturer'' (findtext_child device_info ''Manufacturer'') gc;
                            gc = set_label lk ''model_id'' (findtext_child device_info ''ModelId'') gc
                        in (None, self, gc)))))"

definition parse_network_info :: "parser_state \<Rightarrow> error option \<times> parser_state" where
  "parse_network_info s =
     (let (self, gc) = s
      in case find_desc (root self) ''NetworkInfo'' of
           None \<Rightarrow> (None, self, gc)
         | Some network_info \<Rightarrow>
            (case state_ref self of
               None \<Rightarrow> (Some AttributeError, self, gc)
             | Some sk \<Rightarrow>
                (let gc = set_state sk (\<lambda>st. st\<lparr>network_info_received := True\<rparr>) gc
                 in case findtext_child network_info ''LinkStrength'' of
                      None \<Rightarrow> (None, self, gc)
                    | Some link_strength \<Rightarrow>
                       (case py_int 16 link_strength of
                          Inl e \<Rightarrow> (Some e, self, gc)
                        | Inr link_strength \<Rightarrow>
                            (None,
                             self\<lparr>metric := (metric self)(''network_info'' \<mapsto>
                                      [''link_strength'' \<mapsto> of_int link_strength])\<rparr>,
                             gc)))))"

definition parse :: "parser_state \<Rightarrow> error option \<times> parser_state" where
  "parse s =
     (case parse_instantaneous_demand s of
        (Some e, s1) \<Rightarrow> (Some e, s1)
      | (None, s1) \<Rightarrow>
     (case parse_current_summation s1 of
        (Some e, s2) \<Rightarrow> (Some e, s2)
      | (None, s2) \<Rightarrow>
     (case parse_device_info s2 of
        (Some e, s3) \<Rightarrow> (Some e, s3)
      | (None, s3) \<Rightarrow> parse_network_info s3)))"

section \<open>The publication decision\<close>

text \<open>
  \<^verbatim>\<open>get_metric_labels\<close> returns the empty dictionary or the dictionary of the metrics, the
  labels of the device's entry and the timestamp. A reference to an entry that the registry
  does not hold cannot arise (the constructor creates the entry before it sets the
  reference); the model answers \<open>KeyError\<close> there.
\<close>

datatype metric_bundle =
    EmptyBundle
  | Bundle (bundle_metric: "string \<rightharpoonup> (string \<rightharpoonup> rat)")
      (bundle_labels: "string \<rightharpoonup> string option") (bundle_timestamp: int)

definition get_metric_labels :: "parser_state \<Rightarrow> (error + metric_bundle) \<times> parser_state" where
  "get_metric_labels s =
     (let (self, gc) = s
      in case labels_ref self of
           None \<Rightarrow> (Inr EmptyBundle, self, gc)
         | Some lk \<Rightarrow>
            (case state_ref self of
               None \<Rightarrow> (Inl AttributeError, self, gc)
             | Some sk \<Rightarrow>
                (case gc sk of
                   None \<Rightarrow> (Inl KeyError, self, gc)
                 | Some entry \<Rightarrow>
                    if \<not> device_info_received (state entry) \<or> \<not> network_info_received (state entry)
                    then (Inr EmptyBundle, self, gc)
                    else (let meter_mac_id = findtext_desc (root self) ''MeterMacId'';
                              gc = (case meter_mac_id of
                                      None \<Rightarrow> gc
                                    | Some m \<Rightarrow>
                                        if m \<noteq> [] \<and> m \<noteq> ''0x0000000000000000''
                                        then set_label lk ''meter_mac_id'' (Some m) gc
                                        else gc)
                          in case gc lk of
                               None \<Rightarrow> (Inl KeyError, self, gc)
                             | Some e \<Rightarrow>
                                 (Inr (Bundle (metric self) (labels e) (timestamp self)),
                                  self, gc)))))"

text \<open>
  \<^verbatim>\<open>publish\<close> parses, asks for the bundle and sets the gauges; the sink is modelled by the list
  of the gauge calls made, each with the gauge's name, the value and the label dictionary.
\<close>

datatype gauge_call = Gauge_set string rat "string \<rightharpoonup> string option"

definition gauge_calls :: "metric_bundle \<Rightarrow> error + gauge_call list" where
  "gauge_calls ml =
     (case ml of
        EmptyBundle \<Rightarrow> Inr []
      | Bundle metric_data lbls t \<Rightarrow>
         (case (case metric_data ''current_summation'' of
                  None \<Rightarrow> Inr []
                | Some cs \<Rightarrow>
                   (case (cs ''summation_delivered'', cs ''summation_received'') of
                      (Some d, Some r) \<Rightarrow>
                        Inr [Gauge_set ''summation_delivered'' d lbls,
                             Gauge_set ''summation_received'' r lbls]
                    | _ \<Rightarrow> Inl KeyError)) of
            Inl e \<Rightarrow> Inl e
          | Inr calls \<Rightarrow>
             (case metric_data ''instantaneous_demand'' of
                None \<Rightarrow> Inr calls
              | Some dm \<Rightarrow>
                 (case dm ''demand'' of
                    Some d \<Rightarrow> Inr (calls @ [Gauge_set ''instantaneous_demand'' d lbls])
                  | None \<Rightarrow> Inl KeyError))))"

definition publish :: "parser_state \<Rightarrow> (error + gauge_call list) \<times> parser_state" where
  "publish s =
     (case parse s of
        (Some e, s1) \<Rightarrow> (Inl e, s1)
      | (None, s1) \<Rightarrow>
         (case get_metric_labels s1 of
            (Inl e, s2) \<Rightarrow> (Inl e, s2)
          | (Inr ml, s2) \<Rightarrow> (gauge_calls ml, s2)))"

text \<open>
  \<^verbatim>\<open>ingest\<close> builds a parser for the request body, publishes, swallows every exception and
  answers 200. The result is the status, the gauge calls made and the registry afterwards.
\<close>

definition ingest ::
  "environment \<Rightarrow> string \<Rightarrow> string \<Rightarrow> global_config \<Rightarrow> nat \<times> gauge_call list \<times> global_config" where
  "ingest env raw client_host gc =
     (case EagleParse_init env raw client_host gc of
        (Inl e, gc1) \<Rightarrow> (200, [], gc1)
      | (Inr eagle_parser, gc1) \<Rightarrow>
         (case publish (eagle_parser, gc1) of
            (Inl e, self, gc2) \<Rightarrow> (200, [], gc2)
          | (Inr calls, self, gc2) \<Rightarrow> (200, calls, gc2)))"

text \<open>
  The path from the request body to the bundle: construct the parser,
  \<^verbatim>\<open>parse\<close>, \<^verbatim>\<open>get_metric_labels\<close>, as \<^verbatim>\<open>ingest\<close> and \<^verbatim>\<open>publish\<close> run them.
\<close>

definition decode_payload ::
  "environment \<Rightarrow> string \<Rightarrow> string \<Rightarrow> global_config \<Rightarrow> (error + metric_bundle) \<times> global_config" where
  "decode_payload env raw client_host gc =
     (case EagleParse_init env raw client_host gc of
        (Inl e, gc1) \<Rightarrow> (Inl e, gc1)
      | (Inr eagle_parser, gc1) \<Rightarrow>
         (case parse (eagle_parser, gc1) of
            (Some e, self, gc2) \<Rightarrow> (Inl e, gc2)
          | (None, self, gc2) \<Rightarrow>
             (case get_metric_labels (self, gc2) of (r, self, gc3) \<Rightarrow> (r, gc3))))"

section \<open>Notions of the specification\<close>

text \<open>
  The unsigned value that a string of hexadecimal digits denotes, by position, and the
  encoding of a 32-bit pattern as \<open>0x\<close> and eight hexadecimal digits.
\<close>

definition is_hex_digit :: "char \<Rightarrow> bool" where
  "is_hex_digit c = (digit_value c < 16)"

fun hex_denotation :: "string \<Rightarrow> nat" where
  "hex_denotation [] = 0"
| "hex_denotation (c # cs) = digit_value c * 16 ^ length cs + hex_denotation cs"

definition hex_char :: "nat \<Rightarrow> char" where
  "hex_char d = (if d < 10 then char_of (48 + d) else char_of (87 + d))"

fun hex_digits :: "nat \<Rightarrow> nat \<Rightarrow> string" where
  "hex_digits 0 n = []"
| "hex_digits (Suc k) n = hex_digits k (n div 16) @ [hex_char (n mod 16)]"

definition encode_hex32 :: "32 word \<Rightarrow> string" where
  "encode_hex32 w = ''0x'' @ hex_digits 8 (unat w)"

text \<open>
  The resolved timestamp of a payload: the parser's timestamp once the constructor and
  \<^verbatim>\<open>parse\<close> have run, which is the one \<^verbatim>\<open>get_metric_labels\<close> hands out.
\<close>

definition resolved_timestamp ::
  "environment \<Rightarrow> string \<Rightarrow> string \<Rightarrow> global_config \<Rightarrow> error + int" where
  "resolved_timestamp env raw client_host gc =
     (case EagleParse_init env raw client_host gc of
        (Inl e, gc1) \<Rightarrow> Inl e
      | (Inr eagle_parser, gc1) \<Rightarrow>
         (case parse (eagle_parser, gc1) of
            (Some e, self, gc2) \<Rightarrow> Inl e
          | (None, self, gc2) \<Rightarrow> Inr (timestamp self)))"

text \<open>
  The conversion in the words of the specification: the raw reading times the multiplier,
  divided by the divisor, where a multiplier and a divisor of 0 each count as 1. The division
  is Python's true division of integers.
\<close>

definition default_to_one :: "int \<Rightarrow> int" where
  "default_to_one x = (if x = 0 then 1 else x)"

definition scaled_value :: "int \<Rightarrow> int \<Rightarrow> int \<Rightarrow> error + rat" where
  "scaled_value raw multiplier divisor =
     truediv (raw * default_to_one multiplier) (default_to_one divisor)"

text \<open>
  A demand section decodes with section timestamp \<open>t\<close> when its four fields are read without
  error, the conversion gives a float and the float is within the bound; a summation section
  decodes with section timestamp \<open>t\<close> when its five fields are read without error and both
  conversions give floats.
\<close>

definition demand_decodes :: "element \<Rightarrow> int \<Rightarrow> bool" where
  "demand_decodes sec t =
     (case (hex_field sec ''Demand'', hex_field sec ''Multiplier'', hex_field sec ''Divisor'',
            int16_field sec ''TimeStamp'') of
        (Inr d, Inr m, Inr v, Inr t') \<Rightarrow>
          t' = t \<and>
          (case scaled_value d m v of
             Inr val \<Rightarrow> - 1000 \<le> val \<and> val \<le> 1000
           | Inl e \<Rightarrow> False)
      | _ \<Rightarrow> False)"

definition summation_decodes :: "element \<Rightarrow> int \<Rightarrow> bool" where
  "summation_decodes sec t =
     (case (hex_field sec ''SummationDelivered'', hex_field sec ''SummationReceived'',
            hex_field sec ''Multiplier'', hex_field sec ''Divisor'',
            int16_field sec ''TimeStamp'') of
        (Inr sd, Inr sr, Inr m, Inr v, Inr t') \<Rightarrow>
          t' = t \<and>
          (case (scaled_value sd m v, scaled_value sr m v) of
             (Inr x, Inr y) \<Rightarrow> True
           | _ \<Rightarrow> False)
      | _ \<Rightarrow> False)"

text \<open>
  The device-info and network-info sections of a document cannot fail: either there is
  neither of them or the document names a device, and a link strength, where there is one,
  is accepted by \<^verbatim>\<open>int(..., 16)\<close>.
\<close>

definition later_sections_ok :: "element \<Rightarrow> bool" where
  "later_sections_ok rt =
     ((find_desc rt ''DeviceInfo'' = None \<and> find_desc rt ''NetworkInfo'' = None \<or>
       (case findtext_desc rt ''DeviceMacId'' of None \<Rightarrow> False | Some d \<Rightarrow> d \<noteq> [])) \<and>
      (case find_desc rt ''NetworkInfo'' of
         None \<Rightarrow> True
       | Some ni \<Rightarrow>
           (case findtext_child ni ''LinkStrength'' of
              None \<Rightarrow> True
            | Some ls \<Rightarrow> (case py_int 16 ls of Inl e \<Rightarrow> False | Inr n \<Rightarrow> True))))"

section \<open>Example payloads\<close>

text \<open>
  Payloads in the shape the gateway sends them: a root element \<^verbatim>\<open>rainforest\<close> with a
  \<^verbatim>\<open>timestamp\<close> attribute and, below it, sections whose sub-elements hold text only. They
  serve as the concrete inputs of the properties below.
\<close>

definition leaf :: "string \<Rightarrow> string \<Rightarrow> element" where
  "leaf t x = Element t [] (Some x) []"

definition device_id :: string where
  "device_id = ''0xd8d5b9000000abcd''"

definition demand_section :: "string \<Rightarrow> string \<Rightarrow> string \<Rightarrow> string \<Rightarrow> string \<Rightarrow> element" where
  "demand_section meter d m v ts =
     Element ''InstantaneousDemand'' [] None
       [leaf ''DeviceMacId'' device_id, leaf ''MeterMacId'' meter, leaf ''TimeStamp'' ts,
        leaf ''Demand'' d, leaf ''Multiplier'' m, leaf ''Divisor'' v]"

definition summation_section ::
  "string \<Rightarrow> string \<Rightarrow> string \<Rightarrow> string \<Rightarrow> string \<Rightarrow> string \<Rightarrow> element" where
  "summation_section meter sd sr m v ts =
     Element ''CurrentSummation'' [] None
       [leaf ''DeviceMacId'' device_id, leaf ''MeterMacId'' meter, leaf ''TimeStamp'' ts,
        leaf ''SummationDelivered'' sd, leaf ''SummationReceived'' sr,
        leaf ''Multiplier'' m, leaf ''Divisor'' v]"

definition device_info_section :: element where
  "device_info_section =
     Element ''DeviceInfo'' [] None
       [leaf ''DeviceMacId'' device_id, leaf ''FWVersion'' ''2.0.21'', leaf ''HWVersion'' ''1.2.3'',
        leaf ''Manufacturer'' ''Rainforest'', leaf ''ModelId'' ''Z109-EAGLE'']"

definition network_info_section :: "string \<Rightarrow> element" where
  "network_info_section link_strength =
     Element ''NetworkInfo'' [] None
       [leaf ''DeviceMacId'' device_id, leaf ''LinkStrength'' link_strength]"

definition payload :: "string \<Rightarrow> element list \<Rightarrow> element" where
  "payload ts sections = Element ''rainforest'' [(''timestamp'', ts)] None sections"

text \<open>
  An environment whose XML parser returns the given document for every request body, whose
  clock shows 1700000000 and which has no optional labels; and a registry that holds the
  example device with the given two flags.
\<close>

definition env_of :: "element \<Rightarrow> environment" where
  "env_of doc = \<lparr>fromstring = (\<lambda>raw. Inr doc), time_now = 1700000000,
                 prom_opt_labels = Inr Map.empty\<rparr>"

definition known_device :: "bool \<Rightarrow> bool \<Rightarrow> global_config" where
  "known_device di ni =
     [device_id \<mapsto>
        \<lparr>labels = [''device_mac_id'' \<mapsto> Some device_id, ''client_host'' \<mapsto> Some ''10.0.0.7''],
         state = \<lparr>device_info_received = di, network_info_received = ni\<rparr>\<rparr>]"

definition meter_id :: string where
  "meter_id = ''0x00135003007cf1b4''"

text \<open>
  A demand section that decodes to 1500 / 1000, one that decodes to 2000 / 1, and a
  summation section that decodes to 10000000 / 1000 delivered and 0 received; their
  section timestamps differ.
\<close>

definition demand_ok :: element where
  "demand_ok = demand_section meter_id ''0x000005dc'' ''0x00000001'' ''0x000003e8'' ''0x24ec6f83''"

definition demand_high :: element where
  "demand_high = demand_section meter_id ''0x000007d0'' ''0x00000001'' ''0x00000001'' ''0x24ec6f83''"

definition summation_ok :: element where
  "summation_ok =
     summation_section meter_id ''0x00989680'' ''0x00000000'' ''0x00000001'' ''0x000003e8''
       ''0x24ec6f90''"

text \<open>
  A payload with a device-info section only, and one with a demand and a summation section.
\<close>

definition info_payload :: element where
  "info_payload = payload ''1000000000s'' [device_info_section]"

definition both_payload :: element where
  "both_payload = payload ''1000000000s'' [demand_ok, summation_ok]"

text \<open>A payload whose only section is the demand section that decodes to 2000.\<close>

definition high_payload :: element where
  "high_payload = payload ''1000000000s'' [demand_high]"

text \<open>
  The demand section that decodes to 1500 / 1000 alone in a payload, the same with a
  multiplier of zero, and the parser that the constructor builds for an example payload of
  the example device.
\<close>

definition demand_payload :: element where
  "demand_payload = payload ''1000000000s'' [demand_ok]"

definition zero_multiplier_payload :: element where
  "zero_multiplier_payload =
     payload ''1000000000s''
       [demand_section meter_id ''0x000005dc'' ''0x00000000'' ''0x000003e8'' ''0x24ec6f83'']"

definition parser_of :: "element \<Rightarrow> EagleParse" where
  "parser_of doc =
     \<lparr>raw_xml = ''body'', metric = Map.empty, labels_ref = Some device_id,
      state_ref = Some device_id, root = doc, timestamp = 1000000000\<rparr>"

text \<open>
  A payload with a demand, a device-info and a network-info section, which completes the
  gating of a device; one whose link strength is not hexadecimal; and one whose only section
  is a device-info section without a device identity.
\<close>

definition full_payload :: element where
  "full_payload =
     payload ''1000000000s'' [demand_ok, device_info_section, network_info_section ''0x64'']"

definition bad_link_payload :: element where
  "bad_link_payload =
     payload ''1000000000s'' [device_info_section, network_info_section ''zz'']"

definition orphan_info_payload :: element where
  "orphan_info_payload =
     payload ''1000000000s'' [Element ''DeviceInfo'' [] None [leaf ''FWVersion'' ''2.0.21'']]"

text \<open>A payload whose meter identity is the all-zero value.\<close>

definition sentinel_payload :: element where
  "sentinel_payload =
     payload ''1000000000s''
       [demand_section ''0x0000000000000000'' ''0x000005dc'' ''0x00000001'' ''0x000003e8''
          ''0x24ec6f83'']"

text \<open>
  A demand section of 5 with a divisor of zero, and a summation section with a multiplier
  of zero, each alone in a payload.
\<close>

definition zero_divisor_payload :: element where
  "zero_divisor_payload =
     payload ''1000000000s''
       [demand_section meter_id ''0x00000005'' ''0x00000001'' ''0x00000000'' ''0x24ec6f83'']"

definition zero_summation_payload :: element where
  "zero_summation_payload =
     payload ''1000000000s''
       [summation_section meter_id ''0x00989680'' ''0x00000000'' ''0x00000000'' ''0x000003e8''
          ''0x24ec6f90'']"

section \<open>Properties\<close>

subsection \<open>Signed hexadecimal decoding\<close>

lemma hex_digit_not_special:
  assumes "is_hex_digit c"
  shows "c \<noteq> CHR ''_''" "c \<noteq> CHR ''+''" "c \<noteq> CHR ''-''" "c \<noteq> CHR ''x''" "c \<noteq> CHR ''X''"
  using assms by (auto simp: is_hex_digit_def digit_value_def)

lemma hex_digit_not_space: "is_hex_digit c \<Longrightarrow> \<not> is_space c"
  by (auto simp: is_hex_digit_def digit_value_def is_space_def Let_def split: if_splits)

lemma scan_digits_hex:
  "list_all is_hex_digit ds \<Longrightarrow> prev \<noteq> CHR ''_'' \<Longrightarrow>
   scan_digits 16 prev ds acc = Some (acc * 16 ^ length ds + hex_denotation ds)"
proof (induction ds arbitrary: prev acc)
  case Nil
  then show ?case by simp
next
  case (Cons c cs)
  then have c: "is_hex_digit c" and cs: "list_all is_hex_digit cs" by simp_all
  from c have "c \<noteq> CHR ''_''" by (rule hex_digit_not_special)
  moreover from c have "digit_value c < 16" by (simp add: is_hex_digit_def)
  ultimately show ?case
    using Cons.IH [OF cs, of c] by (simp add: algebra_simps)
qed

lemma strip_id:
  assumes "s \<noteq> []" "\<not> is_space (hd s)" "\<not> is_space (last s)"
  shows "strip s = s"
proof -
  from assms have "dropWhile is_space s = s" by (cases s) simp_all
  moreover from assms have "dropWhile is_space (rev s) = rev s"
    by (cases "rev s") (simp_all add: hd_rev)
  ultimately show ?thesis by (simp add: strip_def)
qed

lemma py_int_hex_digits:
  assumes "ds \<noteq> []" "list_all is_hex_digit ds"
  shows "py_int 16 ds = Inr (int (hex_denotation ds))"
proof -
  from assms obtain c cs where ds: "ds = c # cs" by (cases ds) auto
  with assms have c: "is_hex_digit c" and cs: "list_all is_hex_digit cs" by simp_all
  have "is_hex_digit (hd ds)" "is_hex_digit (last ds)"
    using assms by (simp_all add: ds list_all_iff)
  then have st: "strip ds = ds"
    using assms(1) by (intro strip_id) (simp_all add: hex_digit_not_space)
  have nox: "take 2 ds \<noteq> ''0x''" "take 2 ds \<noteq> ''0X''"
    using cs hex_digit_not_special(4,5) by (cases cs; auto simp: ds)+
  have sc: "scan_digits 16 (CHR 0x00) ds 0 = Some (hex_denotation ds)"
    using scan_digits_hex [OF assms(2), of "CHR 0x00" 0] by simp
  show ?thesis
    using hex_digit_not_special(1,2,3) [OF c] nox sc
    by (simp add: py_int_def st) (simp add: ds)
qed

lemma sint32_of_nat:
  assumes "u < 2 ^ 32"
  shows "sint (word_of_nat u :: 32 word) = (if u < 2 ^ 31 then int u else int u - 2 ^ 32)"
proof -
  have u: "uint (word_of_nat u :: 32 word) = int u"
    using assms by (simp add: uint_nat unat_of_nat take_bit_eq_mod)
  have "sint (word_of_nat u :: 32 word) = signed_take_bit 31 (int u)"
    by (simp add: sint_uint u)
  also have "\<dots> = take_bit 32 (int u + 2 ^ 31) - 2 ^ 31"
    by (simp add: signed_take_bit_eq_take_bit_shift)
  also have "\<dots> = (int u + 2 ^ 31) mod 2 ^ 32 - 2 ^ 31"
    by (simp add: take_bit_eq_mod)
  also have "\<dots> = (if u < 2 ^ 31 then int u else int u - 2 ^ 32)"
  proof (cases "u < 2 ^ 31")
    case True
    then have "(int u + 2 ^ 31) mod 2 ^ 32 = int u + 2 ^ 31" by simp
    with True show ?thesis by simp
  next
    case False
    with assms have "(int u + 2 ^ 31) mod 2 ^ 32 = int u + 2 ^ 31 - 2 ^ 32"
      by (simp add: mod_pos_geq)
    with False show ?thesis by simp
  qed
  finally show ?thesis .
qed

lemma digit_value_hex_char: "d < 16 \<Longrightarrow> digit_value (hex_char d) = d"
  by (simp add: hex_char_def digit_value_def Let_def)

lemma hex_denotation_snoc: "hex_denotation (cs @ [c]) = hex_denotation cs * 16 + digit_value c"
  by (induction cs) (simp_all add: algebra_simps)

lemma length_hex_digits: "length (hex_digits k n) = k"
  by (induction k arbitrary: n) simp_all

lemma hex_digits_all_hex: "list_all is_hex_digit (hex_digits k n)"
  by (induction k arbitrary: n) (simp_all add: is_hex_digit_def digit_value_hex_char)

lemma hex_denotation_hex_digits: "hex_denotation (hex_digits k n) = n mod 16 ^ k"
proof (induction k arbitrary: n)
  case 0
  then show ?case by simp
next
  case (Suc k)
  have "hex_denotation (hex_digits (Suc k) n) = (n div 16 mod 16 ^ k) * 16 + n mod 16"
    by (simp add: hex_denotation_snoc Suc.IH digit_value_hex_char)
  also have "\<dots> = n mod 16 ^ Suc k"
    by (simp add: mod_mult2_eq)
  finally show ?case .
qed

lemma convert_hex_digits:
  assumes "ds \<noteq> []" "list_all is_hex_digit ds" "hex_denotation ds < 2 ^ 32"
  shows "convert_hex_to_int (''0x'' @ ds) =
         Inr (if hex_denotation ds < 2 ^ 31 then int (hex_denotation ds)
              else int (hex_denotation ds) - 2 ^ 32)"
proof -
  have "2 ^ 31 = int (2 ^ 31)" by simp
  then have "(2 ^ 31 \<le> int (hex_denotation ds)) = (2 ^ 31 \<le> hex_denotation ds)"
    by (metis of_nat_le_iff)
  then show ?thesis
    using py_int_hex_digits [OF assms(1,2)]
    by (auto simp add: convert_hex_to_int_def)
qed

text \<open>
  C2. For a string \<open>0x\<close> followed by hexadecimal digits that denote \<open>u < 2 ^ 32\<close>,
  \<open>convert_hex_to_int\<close> returns \<open>u\<close> when \<open>u < 2 ^ 31\<close> and \<open>u - 2 ^ 32\<close> otherwise; the
  result is negative exactly when \<open>u \<ge> 0x80000000\<close> and non-negative exactly when
  \<open>u < 0x80000000\<close>; and decoding the eight-digit encoding of a 32-bit pattern gives the
  two's-complement value of the pattern.
\<close>

theorem convert_hex_to_int_twos_complement:
  "(ds \<noteq> [] \<and> list_all is_hex_digit ds \<and> hex_denotation ds < 2 ^ 32 \<longrightarrow>
      convert_hex_to_int (''0x'' @ ds) =
        Inr (if hex_denotation ds < 2 ^ 31 then int (hex_denotation ds)
             else int (hex_denotation ds) - 2 ^ 32) \<and>
      (\<exists>v. convert_hex_to_int (''0x'' @ ds) = Inr v \<and>
           (v < 0 \<longleftrightarrow> 0x80000000 \<le> hex_denotation ds) \<and>
           (0 \<le> v \<longleftrightarrow> hex_denotation ds < 0x80000000))) \<and>
   convert_hex_to_int (encode_hex32 w) = Inr (sint w)"
proof (intro conjI impI)
  assume h: "ds \<noteq> [] \<and> list_all is_hex_digit ds \<and> hex_denotation ds < 2 ^ 32"
  then show c: "convert_hex_to_int (''0x'' @ ds) =
        Inr (if hex_denotation ds < 2 ^ 31 then int (hex_denotation ds)
             else int (hex_denotation ds) - 2 ^ 32)"
    using convert_hex_digits by blast
  from h have "int (hex_denotation ds) < 2 ^ 32"
    by (metis of_nat_less_iff of_nat_numeral of_nat_power)
  with c show "\<exists>v. convert_hex_to_int (''0x'' @ ds) = Inr v \<and>
           (v < 0 \<longleftrightarrow> 0x80000000 \<le> hex_denotation ds) \<and>
           (0 \<le> v \<longleftrightarrow> hex_denotation ds < 0x80000000)"
    by auto
next
  let ?ds = "hex_digits 8 (unat w)"
  have u: "unat w < 2 ^ 32" using unsigned_less [of w] by simp
  then have d: "hex_denotation ?ds = unat w"
    by (simp only: hex_denotation_hex_digits) simp
  have ne: "?ds \<noteq> []" using length_hex_digits [of 8 "unat w"] by auto
  have "convert_hex_to_int (''0x'' @ ?ds) =
        Inr (if unat w < 2 ^ 31 then int (unat w) else int (unat w) - 2 ^ 32)"
    using convert_hex_digits [OF ne hex_digits_all_hex] u d by simp
  also have "\<dots> = Inr (sint (word_of_nat (unat w) :: 32 word))"
    using sint32_of_nat [OF u] by simp
  finally show "convert_hex_to_int (encode_hex32 w) = Inr (sint w)"
    by (simp add: encode_hex32_def)
qed


lemma hex_digits_unfold:
  "hex_digits k n = (if k = 0 then [] else hex_digits (k - 1) (n div 16) @ [hex_char (n mod 16)])"
  by (cases k) simp_all

theorem convert_hex_to_int_twos_complement_witness:
  "convert_hex_to_int ''0xfffffc18'' = Inr (- 1000) \<and>
   convert_hex_to_int (encode_hex32 0xfffffc18) = Inr (- 1000)"
  using convert_hex_to_int_twos_complement [of "''fffffc18''" "0xfffffc18"]
  by (simp add: digit_value_def is_hex_digit_def)

lemma init_result:
  "case EagleParse_init env raw host gc of
     (Inl e, gc') \<Rightarrow> gc' = gc
   | (Inr p, gc') \<Rightarrow>
       fromstring env raw = Inr (root p) \<and> raw_xml p = raw \<and> metric p = Map.empty \<and>
       state_ref p = labels_ref p \<and>
       labels_ref p = (case findtext_desc (root p) ''DeviceMacId'' of
                         None \<Rightarrow> None | Some d \<Rightarrow> if d = [] then None else Some d) \<and>
       (\<exists>t. py_int 10 (rstrip (CHR ''s'')
                (case map_of (attrib (root p)) ''timestamp'' of None \<Rightarrow> ''0'' | Some a \<Rightarrow> a)) = Inr t
            \<and> timestamp p = (if t \<noteq> 0 then t else time_now env)) \<and>
       (case labels_ref p of
          None \<Rightarrow> gc' = gc
        | Some k \<Rightarrow>
            (case gc k of
               Some e \<Rightarrow> gc' = gc
             | None \<Rightarrow>
                 (\<exists>e. gc' = gc(k \<mapsto> e) \<and> \<not> device_info_received (state e) \<and>
                      \<not> network_info_received (state e))))"
  by (auto simp add: EagleParse_init_def Let_def split: sum.split option.split)

lemma init_error_registry:
  "EagleParse_init env raw host gc = (Inl e, gc') \<Longrightarrow> gc' = gc"
  using init_result [where env = env and raw = raw and host = host and gc = gc] by simp

lemma init_ok:
  assumes "EagleParse_init env raw host gc = (Inr p, gc')"
  shows "fromstring env raw = Inr (root p)" "raw_xml p = raw" "metric p = Map.empty"
    "state_ref p = labels_ref p"
    "labels_ref p = (case findtext_desc (root p) ''DeviceMacId'' of
                       None \<Rightarrow> None | Some d \<Rightarrow> if d = [] then None else Some d)"
    "\<exists>t. py_int 10 (rstrip (CHR ''s'')
                (case map_of (attrib (root p)) ''timestamp'' of None \<Rightarrow> ''0'' | Some a \<Rightarrow> a)) = Inr t
            \<and> timestamp p = (if t \<noteq> 0 then t else time_now env)"
    "case labels_ref p of
          None \<Rightarrow> gc' = gc
        | Some k \<Rightarrow>
            (case gc k of
               Some e \<Rightarrow> gc' = gc
             | None \<Rightarrow>
                 (\<exists>e. gc' = gc(k \<mapsto> e) \<and> \<not> device_info_received (state e) \<and>
                      \<not> network_info_received (state e)))"
proof -
  note H = init_result [where env = env and raw = raw and host = host and gc = gc,
      unfolded assms prod.case sum.case]
  from H show "fromstring env raw = Inr (root p)" by blast
  from H show "raw_xml p = raw" by blast
  from H show "metric p = Map.empty" by blast
  from H show "state_ref p = labels_ref p" by blast
  from H show "labels_ref p = (case findtext_desc (root p) ''DeviceMacId'' of
                       None \<Rightarrow> None | Some d \<Rightarrow> if d = [] then None else Some d)" by blast
  from H show "\<exists>t. py_int 10 (rstrip (CHR ''s'')
                (case map_of (attrib (root p)) ''timestamp'' of None \<Rightarrow> ''0'' | Some a \<Rightarrow> a)) = Inr t
            \<and> timestamp p = (if t \<noteq> 0 then t else time_now env)" by blast
  from H show "case labels_ref p of
          None \<Rightarrow> gc' = gc
        | Some k \<Rightarrow>
            (case gc k of
               Some e \<Rightarrow> gc' = gc
             | None \<Rightarrow>
                 (\<exists>e. gc' = gc(k \<mapsto> e) \<and> \<not> device_info_received (state e) \<and>
                      \<not> network_info_received (state e)))" by blast
qed

lemma init_registry:
  assumes "EagleParse_init env raw host gc = (Inr p, gc')"
  shows "labels_ref p = None \<Longrightarrow> gc' = gc"
    "gc k = Some e \<Longrightarrow> gc' k = Some e"
    "labels_ref p \<noteq> Some k \<Longrightarrow> gc' k = gc k"
    "labels_ref p = Some k \<Longrightarrow> gc' k \<noteq> None"
    "labels_ref p = Some k \<Longrightarrow> gc k = None \<Longrightarrow>
       \<exists>e. gc' k = Some e \<and> \<not> device_info_received (state e) \<and> \<not> network_info_received (state e)"
  using init_ok(7) [OF assms]
  by (auto split: option.splits)


lemmas if_proj = if_distrib [of fst] if_distrib [of snd] if_distrib [of root]
  if_distrib [of labels_ref] if_distrib [of state_ref] if_distrib [of raw_xml]

lemma demand_frame:
  "snd (snd (parse_instantaneous_demand (p, gc))) = gc \<and>
   root (fst (snd (parse_instantaneous_demand (p, gc)))) = root p \<and>
   labels_ref (fst (snd (parse_instantaneous_demand (p, gc)))) = labels_ref p \<and>
   state_ref (fst (snd (parse_instantaneous_demand (p, gc)))) = state_ref p \<and>
   raw_xml (fst (snd (parse_instantaneous_demand (p, gc)))) = raw_xml p"
  by (simp add: parse_instantaneous_demand_def Let_def if_proj
      split: option.split sum.split split del: if_split cong: if_cong)

lemma summation_frame:
  "snd (snd (parse_current_summation (p, gc))) = gc \<and>
   root (fst (snd (parse_current_summation (p, gc)))) = root p \<and>
   labels_ref (fst (snd (parse_current_summation (p, gc)))) = labels_ref p \<and>
   state_ref (fst (snd (parse_current_summation (p, gc)))) = state_ref p \<and>
   raw_xml (fst (snd (parse_current_summation (p, gc)))) = raw_xml p"
  by (simp add: parse_current_summation_def Let_def if_proj
      split: option.split sum.split split del: if_split cong: if_cong)

lemma py_int_error: "py_int b s = Inl e \<Longrightarrow> e = ValueError"
  by (simp add: py_int_def Let_def split: if_splits option.splits)

lemma convert_hex_to_int_error: "convert_hex_to_int s = Inl e \<Longrightarrow> e = ValueError"
  by (auto simp: convert_hex_to_int_def split: sum.splits dest: py_int_error)

lemma hex_field_error:
  "hex_field sec name = Inl e \<Longrightarrow> e = AttributeError \<or> e = TypeError \<or> e = ValueError"
  by (auto simp: hex_field_def split: option.splits dest: convert_hex_to_int_error)

lemma int16_field_error:
  "int16_field sec name = Inl e \<Longrightarrow> e = AttributeError \<or> e = TypeError \<or> e = ValueError"
  by (auto simp: int16_field_def split: option.splits dest: py_int_error)

lemma truediv_error:
  "truediv a b = Inl e \<Longrightarrow> (b = 0 \<and> e = ZeroDivisionError) \<or> (b \<noteq> 0 \<and> e = OverflowError)"
  by (auto simp: truediv_def Let_def split: if_splits)


lemma device_info_frame:
  "fst (snd (parse_device_info (p, gc))) = p"
  by (simp add: parse_device_info_def Let_def split: option.split)

lemma network_info_frame:
  "root (fst (snd (parse_network_info (p, gc)))) = root p \<and>
   labels_ref (fst (snd (parse_network_info (p, gc)))) = labels_ref p \<and>
   state_ref (fst (snd (parse_network_info (p, gc)))) = state_ref p \<and>
   raw_xml (fst (snd (parse_network_info (p, gc)))) = raw_xml p \<and>
   timestamp (fst (snd (parse_network_info (p, gc)))) = timestamp p"
  by (simp add: parse_network_info_def Let_def split: option.split sum.split)

lemma device_info_absent:
  "find_desc (root p) ''DeviceInfo'' = None \<Longrightarrow> parse_device_info (p, gc) = (None, p, gc)"
  by (simp add: parse_device_info_def)

lemma device_info_no_state:
  "find_desc (root p) ''DeviceInfo'' = Some di \<Longrightarrow> state_ref p = None \<Longrightarrow>
   parse_device_info (p, gc) = (Some AttributeError, p, gc)"
  by (simp add: parse_device_info_def)

lemma device_info_present:
  assumes "find_desc (root p) ''DeviceInfo'' = Some di" "state_ref p = Some k"
    "labels_ref p = Some k" "gc k = Some e"
  shows "parse_device_info (p, gc) =
    (None, p,
     gc(k \<mapsto> e\<lparr>state := (state e)\<lparr>device_info_received := True\<rparr>,
               labels := (labels e)(''fw_version'' \<mapsto> findtext_child di ''FWVersion'',
                                    ''hw_version'' \<mapsto> findtext_child di ''HWVersion'',
                                    ''manufacturer'' \<mapsto> findtext_child di ''Manufacturer'',
                                    ''model_id'' \<mapsto> findtext_child di ''ModelId'')\<rparr>))"
  using assms by (simp add: parse_device_info_def set_state_def set_label_def)

lemma network_info_absent:
  "find_desc (root p) ''NetworkInfo'' = None \<Longrightarrow> parse_network_info (p, gc) = (None, p, gc)"
  by (simp add: parse_network_info_def)

lemma network_info_no_state:
  "find_desc (root p) ''NetworkInfo'' = Some ni \<Longrightarrow> state_ref p = None \<Longrightarrow>
   parse_network_info (p, gc) = (Some AttributeError, p, gc)"
  by (simp add: parse_network_info_def)

lemma network_info_present:
  assumes "find_desc (root p) ''NetworkInfo'' = Some ni" "state_ref p = Some k" "gc k = Some e"
  shows "snd (snd (parse_network_info (p, gc))) =
           gc(k \<mapsto> e\<lparr>state := (state e)\<lparr>network_info_received := True\<rparr>\<rparr>)"
  using assms
  by (simp add: parse_network_info_def set_state_def Let_def split: option.split sum.split)

lemma demand_absent:
  "find_desc (root p) ''InstantaneousDemand'' = None \<Longrightarrow>
   parse_instantaneous_demand (p, gc) = (None, p, gc)"
  by (simp add: parse_instantaneous_demand_def)

lemma summation_absent:
  "find_current_summation (root p) = None \<Longrightarrow> parse_current_summation (p, gc) = (None, p, gc)"
  by (simp add: parse_current_summation_def)

lemma demand_present:
  assumes "find_desc (root p) ''InstantaneousDemand'' = Some sec"
    "hex_field sec ''Demand'' = Inr d" "hex_field sec ''Multiplier'' = Inr m"
    "hex_field sec ''Divisor'' = Inr v" "int16_field sec ''TimeStamp'' = Inr t"
    "truediv (d * (if m \<noteq> 0 then m else 1)) (if v \<noteq> 0 then v else 1) = Inr val"
  shows "parse_instantaneous_demand (p, gc) =
    (if val > 1000 \<or> val < - 1000
     then (Some (DemandException val (if m \<noteq> 0 then m else 1) (if v \<noteq> 0 then v else 1)
                   (utc2000_to_epoch t) (raw_xml p)),
           p\<lparr>timestamp := utc2000_to_epoch t\<rparr>, gc)
     else (None,
           p\<lparr>timestamp := utc2000_to_epoch t,
             metric := (metric p)(''instantaneous_demand'' \<mapsto> [''demand'' \<mapsto> val])\<rparr>,
           gc))"
  using assms
  by (simp add: parse_instantaneous_demand_def Let_def split del: if_split cong: if_cong)

lemma summation_present:
  assumes "find_current_summation (root p) = Some sec"
    "hex_field sec ''SummationDelivered'' = Inr sd" "hex_field sec ''SummationReceived'' = Inr sr"
    "hex_field sec ''Multiplier'' = Inr m"
    "hex_field sec ''Divisor'' = Inr v" "int16_field sec ''TimeStamp'' = Inr t"
    "truediv (sd * (if m \<noteq> 0 then m else 1)) (if v \<noteq> 0 then v else 1) = Inr x"
    "truediv (sr * (if m \<noteq> 0 then m else 1)) (if v \<noteq> 0 then v else 1) = Inr y"
  shows "parse_current_summation (p, gc) =
    (None,
     p\<lparr>timestamp := utc2000_to_epoch t,
       metric := (metric p)(''current_summation'' \<mapsto>
                   [''summation_delivered'' \<mapsto> x, ''summation_received'' \<mapsto> y])\<rparr>,
     gc)"
  using assms
  by (simp add: parse_current_summation_def Let_def split del: if_split cong: if_cong)

lemma demand_timestamp:
  assumes "find_desc (root p) ''InstantaneousDemand'' = Some sec"
  shows "case parse_instantaneous_demand (p, gc) of
           (Some e, s) \<Rightarrow> True
         | (None, p', gc') \<Rightarrow>
             (\<exists>n. int16_field sec ''TimeStamp'' = Inr n \<and> timestamp p' = utc2000_to_epoch n)"
  using assms
  by (simp add: parse_instantaneous_demand_def Let_def if_distrib [of "case_prod f" for f]
      split: sum.split split del: if_split cong: if_cong)

lemma summation_timestamp:
  assumes "find_current_summation (root p) = Some sec"
  shows "case parse_current_summation (p, gc) of
           (Some e, s) \<Rightarrow> True
         | (None, p', gc') \<Rightarrow>
             (\<exists>n. int16_field sec ''TimeStamp'' = Inr n \<and> timestamp p' = utc2000_to_epoch n)"
  using assms
  by (simp add: parse_current_summation_def Let_def
      split: sum.split split del: if_split cong: if_cong)

lemmas xml_eval = find_child_def find_desc_def findtext_child_def findtext_desc_def
  text_or_empty_def leaf_def payload_def demand_section_def summation_section_def
  device_info_section_def network_info_section_def find_current_summation_def truthy_def
lemmas py_eval = convert_hex_to_int_def py_int_def strip_def is_space_def digit_value_def rstrip_def
lemmas float_eval = truediv_def binary64_def float_exponent_def round_half_even_def pow2_def
  compute_bitlen

lemma demand_shape:
  obtains r p1 where "parse_instantaneous_demand (p, gc) = (r, p1, gc)" "root p1 = root p"
    "labels_ref p1 = labels_ref p" "state_ref p1 = state_ref p" "raw_xml p1 = raw_xml p"
proof -
  have "parse_instantaneous_demand (p, gc) =
        (fst (parse_instantaneous_demand (p, gc)), fst (snd (parse_instantaneous_demand (p, gc))), gc)"
    using demand_frame [of p gc] by (metis prod.collapse)
  then show ?thesis using that demand_frame [of p gc] by blast
qed

lemma summation_shape:
  obtains r p1 where "parse_current_summation (p, gc) = (r, p1, gc)" "root p1 = root p"
    "labels_ref p1 = labels_ref p" "state_ref p1 = state_ref p" "raw_xml p1 = raw_xml p"
proof -
  have "parse_current_summation (p, gc) =
        (fst (parse_current_summation (p, gc)), fst (snd (parse_current_summation (p, gc))), gc)"
    using summation_frame [of p gc] by (metis prod.collapse)
  then show ?thesis using that summation_frame [of p gc] by blast
qed

lemma device_info_shape:
  obtains r g where "parse_device_info (p, gc) = (r, p, g)"
  using device_info_frame [of p gc] by (metis prod.collapse)

lemma network_info_shape:
  obtains r p1 g where "parse_network_info (p, gc) = (r, p1, g)" "root p1 = root p"
    "labels_ref p1 = labels_ref p" "state_ref p1 = state_ref p" "raw_xml p1 = raw_xml p"
    "timestamp p1 = timestamp p"
proof -
  obtain r p1 g where "parse_network_info (p, gc) = (r, p1, g)" by (metis prod_cases3)
  then show ?thesis using that network_info_frame [of p gc] by simp
qed

lemma parse_cases:
  obtains
    (demand) e p1 where "parse_instantaneous_demand (p, gc) = (Some e, p1, gc)"
      "parse (p, gc) = (Some e, p1, gc)"
  | (summation) p1 e p2 where "parse_instantaneous_demand (p, gc) = (None, p1, gc)"
      "parse_current_summation (p1, gc) = (Some e, p2, gc)" "parse (p, gc) = (Some e, p2, gc)"
  | (device_info) p1 p2 e g3 where "parse_instantaneous_demand (p, gc) = (None, p1, gc)"
      "parse_current_summation (p1, gc) = (None, p2, gc)"
      "parse_device_info (p2, gc) = (Some e, p2, g3)" "parse (p, gc) = (Some e, p2, g3)"
  | (network_info) p1 p2 g3 r p4 g4 where "parse_instantaneous_demand (p, gc) = (None, p1, gc)"
      "parse_current_summation (p1, gc) = (None, p2, gc)"
      "parse_device_info (p2, gc) = (None, p2, g3)" "parse_network_info (p2, g3) = (r, p4, g4)"
      "parse (p, gc) = (r, p4, g4)"
proof -
  obtain r1 p1 where d: "parse_instantaneous_demand (p, gc) = (r1, p1, gc)"
    by (rule demand_shape)
  obtain r2 p2 where s: "parse_current_summation (p1, gc) = (r2, p2, gc)"
    by (rule summation_shape)
  obtain r3 g3 where i: "parse_device_info (p2, gc) = (r3, p2, g3)"
    by (rule device_info_shape)
  obtain r4 p4 g4 where n: "parse_network_info (p2, g3) = (r4, p4, g4)"
    by (metis prod_cases3)
  show ?thesis
  proof (cases r1)
    case (Some e)
    then show ?thesis using demand [of e p1] d by (simp add: parse_def)
  next
    case r1: None
    show ?thesis
    proof (cases r2)
      case (Some e)
      then show ?thesis using summation [of p1 e p2] d s r1 by (simp add: parse_def)
    next
      case r2: None
      show ?thesis
      proof (cases r3)
        case (Some e)
        then show ?thesis using device_info [of p1 p2 e g3] d s i r1 r2 by (simp add: parse_def)
      next
        case None
        then show ?thesis using network_info [of p1 p2 g3 r4 p4 g4] d s i n r1 r2
          by (simp add: parse_def)
      qed
    qed
  qed
qed

lemma parse_frame:
  "root (fst (snd (parse (p, gc)))) = root p \<and>
   labels_ref (fst (snd (parse (p, gc)))) = labels_ref p \<and>
   state_ref (fst (snd (parse (p, gc)))) = state_ref p \<and>
   raw_xml (fst (snd (parse (p, gc)))) = raw_xml p"
proof (cases rule: parse_cases [of p gc])
  case (demand e p1)
  then show ?thesis using demand_frame [of p gc] by simp
next
  case (summation p1 e p2)
  then show ?thesis using demand_frame [of p gc] summation_frame [of p1 gc] by simp
next
  case (device_info p1 p2 e g3)
  then show ?thesis using demand_frame [of p gc] summation_frame [of p1 gc] by simp
next
  case (network_info p1 p2 g3 r p4 g4)
  then show ?thesis
    using demand_frame [of p gc] summation_frame [of p1 gc] network_info_frame [of p2 g3]
    by simp
qed

lemma resolved_timestamp_Inr:
  assumes "resolved_timestamp env raw host gc = Inr ts"
  obtains p gc1 p4 g4 where "EagleParse_init env raw host gc = (Inr p, gc1)"
    "parse (p, gc1) = (None, p4, g4)" "ts = timestamp p4"
  using assms
  by (auto simp: resolved_timestamp_def split: prod.splits sum.splits option.splits)

text \<open>
  C10. A well-formed document whose \<^verbatim>\<open>timestamp\<close> attribute, with its trailing \<open>s\<close>
  characters stripped, is not accepted by \<^verbatim>\<open>int\<close> makes the constructor fail with
  \<^verbatim>\<open>ValueError\<close>, the registry untouched; so a parser that was constructed had no such
  attribute or one that \<^verbatim>\<open>int\<close> accepts. \<open>12h\<close> and the empty value are not accepted.
\<close>

theorem init_rejects_bad_timestamp:
  "(fromstring env raw = Inr rt \<and> map_of (attrib rt) ''timestamp'' = Some a \<and>
    py_int 10 (rstrip (CHR ''s'') a) = Inl e \<longrightarrow>
      EagleParse_init env raw host gc = (Inl ValueError, gc)) \<and>
   (EagleParse_init env raw host gc = (Inr p, gc') \<longrightarrow>
      map_of (attrib (root p)) ''timestamp'' = None \<or>
      (\<exists>a t. map_of (attrib (root p)) ''timestamp'' = Some a \<and>
             py_int 10 (rstrip (CHR ''s'') a) = Inr t)) \<and>
   py_int 10 (rstrip (CHR ''s'') ''12h'') = Inl ValueError \<and>
   py_int 10 (rstrip (CHR ''s'') []) = Inl ValueError"
proof (intro conjI impI)
  assume h: "fromstring env raw = Inr rt \<and> map_of (attrib rt) ''timestamp'' = Some a \<and>
    py_int 10 (rstrip (CHR ''s'') a) = Inl e"
  then have "e = ValueError" using py_int_error by blast
  with h show "EagleParse_init env raw host gc = (Inl ValueError, gc)"
    by (simp add: EagleParse_init_def)
next
  assume ok: "EagleParse_init env raw host gc = (Inr p, gc')"
  from init_ok(6) [OF ok] 
  show "map_of (attrib (root p)) ''timestamp'' = None \<or>
      (\<exists>a t. map_of (attrib (root p)) ''timestamp'' = Some a \<and>
             py_int 10 (rstrip (CHR ''s'') a) = Inr t)"
    by (cases "map_of (attrib (root p)) ''timestamp''") auto
next
  show "py_int 10 (rstrip (CHR ''s'') ''12h'') = Inl ValueError" by (simp add: py_eval)
next
  show "py_int 10 (rstrip (CHR ''s'') []) = Inl ValueError" by (simp add: py_eval)
qed

lemma payload_attrib: "map_of (attrib (payload ts secs)) ''timestamp'' = Some ts"
  by (simp add: payload_def)

lemma env_of_simps:
  "fromstring (env_of doc) raw = Inr doc" "time_now (env_of doc) = 1700000000"
  "prom_opt_labels (env_of doc) = Inr Map.empty"
  by (simp_all add: env_of_def)

theorem init_rejects_bad_timestamp_witness:
  "EagleParse_init (env_of (payload ''12h'' [])) ''body'' ''10.0.0.7'' Map.empty =
     (Inl ValueError, Map.empty) \<and>
   EagleParse_init (env_of (payload [] [])) ''body'' ''10.0.0.7'' Map.empty =
     (Inl ValueError, Map.empty)"
  using init_rejects_bad_timestamp [of "env_of (payload ''12h'' [])" "''body''" "payload ''12h'' []"
      "''12h''" ValueError "''10.0.0.7''" Map.empty]
    init_rejects_bad_timestamp [of "env_of (payload [] [])" "''body''" "payload [] []"
      "[]" ValueError "''10.0.0.7''" Map.empty]
  by (simp add: env_of_simps payload_attrib)

subsection \<open>Evaluating the example payloads\<close>

lemma demand_section_fields:
  "hex_field (demand_section me d m v ts) ''Demand'' = convert_hex_to_int d"
  "hex_field (demand_section me d m v ts) ''Multiplier'' = convert_hex_to_int m"
  "hex_field (demand_section me d m v ts) ''Divisor'' = convert_hex_to_int v"
  "int16_field (demand_section me d m v ts) ''TimeStamp'' = py_int 16 ts"
  by (simp_all add: hex_field_def int16_field_def xml_eval)

lemma summation_section_fields:
  "hex_field (summation_section me sd sr m v ts) ''SummationDelivered'' = convert_hex_to_int sd"
  "hex_field (summation_section me sd sr m v ts) ''SummationReceived'' = convert_hex_to_int sr"
  "hex_field (summation_section me sd sr m v ts) ''Multiplier'' = convert_hex_to_int m"
  "hex_field (summation_section me sd sr m v ts) ''Divisor'' = convert_hex_to_int v"
  "int16_field (summation_section me sd sr m v ts) ''TimeStamp'' = py_int 16 ts"
  by (simp_all add: hex_field_def int16_field_def xml_eval)

lemma hex_values:
  "convert_hex_to_int ''0x00000000'' = Inr 0"
  "convert_hex_to_int ''0x00000001'' = Inr 1"
  "convert_hex_to_int ''0x000003e8'' = Inr 1000"
  "convert_hex_to_int ''0x000005dc'' = Inr 1500"
  "convert_hex_to_int ''0x000007d0'' = Inr 2000"
  "convert_hex_to_int ''0x00989680'' = Inr 10000000"
  by (simp_all add: py_eval)

lemma int16_values:
  "py_int 16 ''0x24ec6f83'' = Inr 619474819"
  "py_int 16 ''0x24ec6f90'' = Inr 619474832"
  "py_int 16 ''0x64'' = Inr 100"
  "py_int 16 ''zz'' = Inl ValueError"
  by (simp_all add: py_eval)

lemma int10_values:
  "py_int 10 (rstrip (CHR ''s'') ''1000000000s'') = Inr 1000000000"
  "py_int 10 (rstrip (CHR ''s'') ''0s'') = Inr 0"
  by (simp_all add: py_eval)

lemma truediv_values:
  "truediv 1500 1000 = Inr (3 / 2)"
  "truediv 2000 1 = Inr 2000"
  "truediv 10000000 1000 = Inr 10000"
  "truediv 0 1000 = Inr 0"
  by (simp_all add: float_eval)

lemma init_new_device:
  assumes "fromstring env raw = Inr rt"
    "py_int 10 (rstrip (CHR ''s'')
       (case map_of (attrib rt) ''timestamp'' of None \<Rightarrow> ''0'' | Some a \<Rightarrow> a)) = Inr t"
    "findtext_desc rt ''DeviceMacId'' = Some d" "d \<noteq> []" "gc d = None"
    "prom_opt_labels env = Inr opt" "opt d = None"
  shows "EagleParse_init env raw host gc =
    (Inr \<lparr>raw_xml = raw, metric = Map.empty, labels_ref = Some d, state_ref = Some d,
          root = rt, timestamp = (if t \<noteq> 0 then t else time_now env)\<rparr>,
     gc(d \<mapsto> \<lparr>labels = [''device_mac_id'' \<mapsto> Some d, ''client_host'' \<mapsto> Some host],
              state = \<lparr>device_info_received = False, network_info_received = False\<rparr>\<rparr>))"
  using assms by (simp add: EagleParse_init_def Let_def split del: if_split cong: if_cong)

lemma init_known_device:
  assumes "fromstring env raw = Inr rt"
    "py_int 10 (rstrip (CHR ''s'')
       (case map_of (attrib rt) ''timestamp'' of None \<Rightarrow> ''0'' | Some a \<Rightarrow> a)) = Inr t"
    "findtext_desc rt ''DeviceMacId'' = Some d" "d \<noteq> []" "gc d = Some e"
  shows "EagleParse_init env raw host gc =
    (Inr \<lparr>raw_xml = raw, metric = Map.empty, labels_ref = Some d, state_ref = Some d,
          root = rt, timestamp = (if t \<noteq> 0 then t else time_now env)\<rparr>, gc)"
  using assms by (simp add: EagleParse_init_def Let_def split del: if_split cong: if_cong)

lemma init_no_device:
  assumes "fromstring env raw = Inr rt"
    "py_int 10 (rstrip (CHR ''s'')
       (case map_of (attrib rt) ''timestamp'' of None \<Rightarrow> ''0'' | Some a \<Rightarrow> a)) = Inr t"
    "findtext_desc rt ''DeviceMacId'' = None"
  shows "EagleParse_init env raw host gc =
    (Inr \<lparr>raw_xml = raw, metric = Map.empty, labels_ref = None, state_ref = None,
          root = rt, timestamp = (if t \<noteq> 0 then t else time_now env)\<rparr>, gc)"
  using assms by (simp add: EagleParse_init_def Let_def split del: if_split cong: if_cong)

lemma device_id_nonempty: "device_id \<noteq> []"
  by (simp add: device_id_def)

subsection \<open>Timestamps\<close>

lemma resolved_timestamp_no_sections:
  assumes "resolved_timestamp env raw host gc = Inr ts" "fromstring env raw = Inr rt"
    "find_desc rt ''InstantaneousDemand'' = None" "find_current_summation rt = None"
  shows "\<exists>t. py_int 10 (rstrip (CHR ''s'')
                 (case map_of (attrib rt) ''timestamp'' of None \<Rightarrow> ''0'' | Some a \<Rightarrow> a)) = Inr t
             \<and> ts = (if t \<noteq> 0 then t else time_now env)"
proof -
  from assms(1) obtain p gc1 p4 g4 where
    i: "EagleParse_init env raw host gc = (Inr p, gc1)" and
    pr: "parse (p, gc1) = (None, p4, g4)" and ts: "ts = timestamp p4"
    by (rule resolved_timestamp_Inr)
  have rt: "root p = rt" using init_ok(1) [OF i] assms(2) by simp
  have d: "parse_instantaneous_demand (p, gc1) = (None, p, gc1)"
    using assms(3) by (simp add: demand_absent rt)
  have s: "parse_current_summation (p, gc1) = (None, p, gc1)"
    using assms(4) by (simp add: summation_absent rt)
  have "timestamp p4 = timestamp p"
  proof (cases rule: parse_cases [of p gc1])
    case (demand e p1)
    then show ?thesis using pr by simp
  next
    case (summation p1 e p2)
    then show ?thesis using pr by simp
  next
    case (device_info p1 p2 e g3)
    then show ?thesis using pr by simp
  next
    case (network_info p1 p2 g3 r p4' g4')
    then have "p2 = p" using d s by simp
    then show ?thesis using network_info pr network_info_frame [of p g3] by simp
  qed
  then show ?thesis using init_ok(6) [OF i] ts rt by simp
qed

text \<open>
  C3, as amended. For a document whose root carries a \<^verbatim>\<open>timestamp\<close> attribute and that has
  no demand and no summation section, the resolved timestamp of a payload that decodes is the
  attribute with its trailing \<open>s\<close> characters stripped, read by \<^verbatim>\<open>int\<close>, with no offset
  added; when that integer is zero, it is the clock's time.
\<close>

theorem root_timestamp_taken_as_is:
  assumes "resolved_timestamp env raw host gc = Inr ts" "fromstring env raw = Inr rt"
    "map_of (attrib rt) ''timestamp'' = Some a"
    "find_desc rt ''InstantaneousDemand'' = None" "find_current_summation rt = None"
  shows "\<exists>t. py_int 10 (rstrip (CHR ''s'') a) = Inr t \<and>
             ts = (if t \<noteq> 0 then t else time_now env)"
  using resolved_timestamp_no_sections [OF assms(1,2,4,5)] assms(3) by simp

lemma info_payload_lookups:
  "findtext_desc info_payload ''DeviceMacId'' = Some device_id"
  "find_desc info_payload ''InstantaneousDemand'' = None"
  "find_current_summation info_payload = None"
  "find_desc info_payload ''DeviceInfo'' = Some device_info_section"
  "find_desc info_payload ''NetworkInfo'' = None"
  "map_of (attrib info_payload) ''timestamp'' = Some ''1000000000s''"
  by (simp_all add: info_payload_def xml_eval)

lemma resolved_info_payload:
  "resolved_timestamp (env_of info_payload) ''body'' ''10.0.0.7'' Map.empty = Inr 1000000000"
proof -
  have "EagleParse_init (env_of info_payload) ''body'' ''10.0.0.7'' Map.empty =
    (Inr \<lparr>raw_xml = ''body'', metric = Map.empty, labels_ref = Some device_id,
          state_ref = Some device_id, root = info_payload, timestamp = 1000000000\<rparr>,
     [device_id \<mapsto> \<lparr>labels = [''device_mac_id'' \<mapsto> Some device_id,
                                  ''client_host'' \<mapsto> Some ''10.0.0.7''],
              state = \<lparr>device_info_received = False, network_info_received = False\<rparr>\<rparr>])"
    using init_new_device [of "env_of info_payload" "''body''" info_payload 1000000000 device_id
        Map.empty Map.empty "''10.0.0.7''"]
    by (simp add: env_of_simps info_payload_lookups int10_values device_id_nonempty)
  then show ?thesis
    by (simp add: resolved_timestamp_def parse_def demand_absent summation_absent
        device_info_present network_info_absent info_payload_lookups)
qed

theorem root_timestamp_taken_as_is_witness:
  "resolved_timestamp (env_of info_payload) ''body'' ''10.0.0.7'' Map.empty = Inr 1000000000 \<and>
   py_int 10 (rstrip (CHR ''s'') ''1000000000s'') = Inr 1000000000"
  using root_timestamp_taken_as_is [of "env_of info_payload" "''body''" "''10.0.0.7''" Map.empty
      1000000000 info_payload "''1000000000s''"]
  by (simp add: resolved_info_payload env_of_simps info_payload_lookups int10_values)

theorem root_timestamp_offset_counterexample:
  "map_of (attrib info_payload) ''timestamp'' = Some ''1000000000s'' \<and>
   py_int 10 (rstrip (CHR ''s'') ''1000000000s'') = Inr 1000000000 \<and>
   resolved_timestamp (env_of info_payload) ''body'' ''10.0.0.7'' Map.empty = Inr 1000000000 \<and>
   resolved_timestamp (env_of info_payload) ''body'' ''10.0.0.7'' Map.empty
     \<noteq> Inr (1000000000 + 946684800)"
  by (simp add: resolved_info_payload info_payload_lookups int10_values)

lemma resolved_timestamp_sections:
  assumes "resolved_timestamp env raw host gc = Inr ts" "fromstring env raw = Inr rt"
  shows "(\<forall>cs. find_current_summation rt = Some cs \<longrightarrow>
            (\<exists>n. int16_field cs ''TimeStamp'' = Inr n \<and> ts = utc2000_to_epoch n)) \<and>
         (\<forall>d. find_current_summation rt = None \<and> find_desc rt ''InstantaneousDemand'' = Some d \<longrightarrow>
            (\<exists>n. int16_field d ''TimeStamp'' = Inr n \<and> ts = utc2000_to_epoch n))"
proof -
  from assms(1) obtain p gc1 p4 g4 where
    i: "EagleParse_init env raw host gc = (Inr p, gc1)" and
    pr: "parse (p, gc1) = (None, p4, g4)" and ts: "ts = timestamp p4"
    by (rule resolved_timestamp_Inr)
  have rt: "root p = rt" using init_ok(1) [OF i] assms(2) by simp
  from pr obtain p1 p2 g3 where
    d: "parse_instantaneous_demand (p, gc1) = (None, p1, gc1)" and
    s: "parse_current_summation (p1, gc1) = (None, p2, gc1)" and
    n: "parse_network_info (p2, g3) = (None, p4, g4)"
    by (cases rule: parse_cases [of p gc1]) auto
  have rt1: "root p1 = rt" using demand_frame [of p gc1] d rt by simp
  have t4: "timestamp p4 = timestamp p2" using network_info_frame [of p2 g3] n by simp
  show ?thesis
  proof (intro conjI allI impI)
    fix cs assume "find_current_summation rt = Some cs"
    then show "\<exists>n. int16_field cs ''TimeStamp'' = Inr n \<and> ts = utc2000_to_epoch n"
      using summation_timestamp [of p1 cs gc1] s rt1 ts t4 by simp
  next
    fix dm assume h: "find_current_summation rt = None \<and> find_desc rt ''InstantaneousDemand'' = Some dm"
    then have "p2 = p1" using s summation_absent [of p1 gc1] rt1 by simp
    then show "\<exists>n. int16_field dm ''TimeStamp'' = Inr n \<and> ts = utc2000_to_epoch n"
      using demand_timestamp [of p dm gc1] d h rt ts t4 by simp
  qed
qed

lemma both_payload_lookups:
  "findtext_desc both_payload ''DeviceMacId'' = Some device_id"
  "find_desc both_payload ''InstantaneousDemand'' = Some demand_ok"
  "find_current_summation both_payload = Some summation_ok"
  "find_desc both_payload ''DeviceInfo'' = None"
  "find_desc both_payload ''NetworkInfo'' = None"
  "map_of (attrib both_payload) ''timestamp'' = Some ''1000000000s''"
  by (simp_all add: both_payload_def demand_ok_def summation_ok_def xml_eval)

lemma demand_ok_fields:
  "hex_field demand_ok ''Demand'' = Inr 1500" "hex_field demand_ok ''Multiplier'' = Inr 1"
  "hex_field demand_ok ''Divisor'' = Inr 1000" "int16_field demand_ok ''TimeStamp'' = Inr 619474819"
  by (simp_all add: demand_ok_def demand_section_fields hex_values int16_values)

lemma summation_ok_fields:
  "hex_field summation_ok ''SummationDelivered'' = Inr 10000000"
  "hex_field summation_ok ''SummationReceived'' = Inr 0"
  "hex_field summation_ok ''Multiplier'' = Inr 1" "hex_field summation_ok ''Divisor'' = Inr 1000"
  "int16_field summation_ok ''TimeStamp'' = Inr 619474832"
  by (simp_all add: summation_ok_def summation_section_fields hex_values int16_values)

lemma resolved_both_payload:
  "resolved_timestamp (env_of both_payload) ''body'' ''10.0.0.7'' Map.empty = Inr 1566159632"
proof -
  let ?p = "\<lparr>raw_xml = ''body'', metric = Map.empty, labels_ref = Some device_id,
          state_ref = Some device_id, root = both_payload, timestamp = 1000000000\<rparr>"
  let ?gc = "[device_id \<mapsto> \<lparr>labels = [''device_mac_id'' \<mapsto> Some device_id,
                                  ''client_host'' \<mapsto> Some ''10.0.0.7''],
              state = \<lparr>device_info_received = False, network_info_received = False\<rparr>\<rparr>]"
  have i: "EagleParse_init (env_of both_payload) ''body'' ''10.0.0.7'' Map.empty = (Inr ?p, ?gc)"
    using init_new_device [of "env_of both_payload" "''body''" both_payload 1000000000 device_id
        Map.empty Map.empty "''10.0.0.7''"]
    by (simp add: env_of_simps both_payload_lookups int10_values device_id_nonempty)
  let ?p1 = "\<lparr>raw_xml = ''body'',
          metric = [''instantaneous_demand'' \<mapsto> [''demand'' \<mapsto> 3 / 2]],
          labels_ref = Some device_id, state_ref = Some device_id, root = both_payload,
          timestamp = 1566159619\<rparr>"
  let ?p2 = "\<lparr>raw_xml = ''body'',
          metric = [''instantaneous_demand'' \<mapsto> [''demand'' \<mapsto> 3 / 2],
                    ''current_summation'' \<mapsto>
                       [''summation_delivered'' \<mapsto> 10000, ''summation_received'' \<mapsto> 0]],
          labels_ref = Some device_id, state_ref = Some device_id, root = both_payload,
          timestamp = 1566159632\<rparr>"
  have d: "parse_instantaneous_demand (?p, ?gc) = (None, ?p1, ?gc)"
    using demand_present [of ?p demand_ok 1500 1 1000 619474819 "3 / 2" ?gc]
    by (simp add: both_payload_lookups demand_ok_fields truediv_values utc2000_to_epoch_def)
  have s: "parse_current_summation (?p1, ?gc) = (None, ?p2, ?gc)"
    using summation_present [of ?p1 summation_ok 10000000 0 1 1000 619474832 10000 0 ?gc]
    by (simp add: both_payload_lookups summation_ok_fields truediv_values utc2000_to_epoch_def)
  show ?thesis
    by (simp add: resolved_timestamp_def i parse_def d s device_info_absent network_info_absent
        both_payload_lookups)
qed

subsection \<open>The errors of the section parsers\<close>

lemma truediv_nonzero_error: "b \<noteq> 0 \<Longrightarrow> truediv a b = Inl e \<Longrightarrow> e = OverflowError"
  by (auto dest: truediv_error)

lemma default_one_nonzero: "(if v \<noteq> 0 then v else 1) \<noteq> (0::int)"
  by simp

lemma demand_errors:
  "fst (parse_instantaneous_demand (p, gc)) = Some e \<Longrightarrow>
   e \<in> {AttributeError, TypeError, ValueError, OverflowError} \<or>
   (\<exists>a b c t x. e = DemandException a b c t x)"
  by (auto simp: parse_instantaneous_demand_def Let_def
      split: option.splits sum.splits if_splits
      dest: hex_field_error int16_field_error truediv_nonzero_error [rotated])

lemma summation_errors:
  "fst (parse_current_summation (p, gc)) = Some e \<Longrightarrow>
   e \<in> {AttributeError, TypeError, ValueError, OverflowError}"
  by (auto simp: parse_current_summation_def Let_def
      split: option.splits sum.splits if_splits
      dest: hex_field_error int16_field_error truediv_nonzero_error [rotated])

lemma device_info_errors:
  "fst (parse_device_info (p, gc)) = Some e \<Longrightarrow> e \<in> {AttributeError, TypeError}"
  by (auto simp: parse_device_info_def Let_def split: option.splits)

lemma network_info_errors:
  "fst (parse_network_info (p, gc)) = Some e \<Longrightarrow> e \<in> {AttributeError, ValueError}"
  by (auto simp: parse_network_info_def Let_def split: option.splits sum.splits
      dest: py_int_error)


subsection \<open>The demand bound\<close>

lemma parse_demand_exception:
  assumes "fst (parse (p, gc)) = Some (DemandException a b c t x)"
  shows "fst (parse_instantaneous_demand (p, gc)) = Some (DemandException a b c t x)"
proof (cases rule: parse_cases [of p gc])
  case (demand e p1)
  then show ?thesis using assms by simp
next
  case (summation p1 e p2)
  then show ?thesis using assms summation_errors [of p1 gc e] by auto
next
  case (device_info p1 p2 e g3)
  then show ?thesis using assms device_info_errors [of p2 gc e] by auto
next
  case (network_info p1 p2 g3 r p4 g4)
  then show ?thesis using assms network_info_errors [of p2 g3] by auto
qed

lemma parse_demand_failure:
  "parse_instantaneous_demand s = (Some e, s1) \<Longrightarrow> parse s = (Some e, s1)"
  by (simp add: parse_def)

text \<open>
  C4. For a payload whose demand section decodes (raw demand \<open>d\<close>, multiplier \<open>m\<close>, divisor
  \<open>v\<close>, the float \<open>val\<close> computed from them after the defaulting of zeros), \<^verbatim>\<open>parse\<close>
  raises the demand exception if and only if \<open>val\<close> is above 1000 or below -1000. When it
  does, the metrics of the parser are as they were, the registry is untouched and
  \<^verbatim>\<open>publish\<close> raises the same exception, so no gauge is set. The summation parser never
  raises the demand exception: whatever values its section decodes to are recorded.
\<close>

theorem demand_bound:
  assumes "find_desc (root p) ''InstantaneousDemand'' = Some sec"
    "hex_field sec ''Demand'' = Inr d" "hex_field sec ''Multiplier'' = Inr m"
    "hex_field sec ''Divisor'' = Inr v" "int16_field sec ''TimeStamp'' = Inr t"
    "truediv (d * (if m \<noteq> 0 then m else 1)) (if v \<noteq> 0 then v else 1) = Inr val"
  shows
    "((\<exists>a b c ts x. fst (parse (p, gc)) = Some (DemandException a b c ts x)) \<longleftrightarrow>
        (val > 1000 \<or> val < - 1000)) \<and>
     (val > 1000 \<or> val < - 1000 \<longrightarrow>
        parse (p, gc) =
          (Some (DemandException val (if m \<noteq> 0 then m else 1) (if v \<noteq> 0 then v else 1)
                   (utc2000_to_epoch t) (raw_xml p)),
           p\<lparr>timestamp := utc2000_to_epoch t\<rparr>, gc) \<and>
        metric (fst (snd (parse (p, gc)))) = metric p \<and>
        fst (publish (p, gc)) =
          Inl (DemandException val (if m \<noteq> 0 then m else 1) (if v \<noteq> 0 then v else 1)
                 (utc2000_to_epoch t) (raw_xml p))) \<and>
     (\<forall>s a b c ts x. fst (parse_current_summation s) \<noteq> Some (DemandException a b c ts x)) \<and>
     (\<forall>q cs sd sr sm sv st x y.
        find_current_summation (root q) = Some cs \<and>
        hex_field cs ''SummationDelivered'' = Inr sd \<and>
        hex_field cs ''SummationReceived'' = Inr sr \<and>
        hex_field cs ''Multiplier'' = Inr sm \<and> hex_field cs ''Divisor'' = Inr sv \<and>
        int16_field cs ''TimeStamp'' = Inr st \<and>
        truediv (sd * (if sm \<noteq> 0 then sm else 1)) (if sv \<noteq> 0 then sv else 1) = Inr x \<and>
        truediv (sr * (if sm \<noteq> 0 then sm else 1)) (if sv \<noteq> 0 then sv else 1) = Inr y \<longrightarrow>
        fst (parse_current_summation (q, gc)) = None \<and>
        metric (fst (snd (parse_current_summation (q, gc)))) ''current_summation'' =
          Some [''summation_delivered'' \<mapsto> x, ''summation_received'' \<mapsto> y])"
proof -
  note dp = demand_present [OF assms, of gc]
  let ?exc = "DemandException val (if m \<noteq> 0 then m else 1) (if v \<noteq> 0 then v else 1)
                   (utc2000_to_epoch t) (raw_xml p)"
  have fail: "parse (p, gc) = (Some ?exc, p\<lparr>timestamp := utc2000_to_epoch t\<rparr>, gc)"
    if "val > 1000 \<or> val < - 1000"
    using dp that by (intro parse_demand_failure) (simp split del: if_split cong: if_cong)
  have iff: "(\<exists>a b c ts x. fst (parse (p, gc)) = Some (DemandException a b c ts x)) \<longleftrightarrow>
        (val > 1000 \<or> val < - 1000)"
  proof
    assume "\<exists>a b c ts x. fst (parse (p, gc)) = Some (DemandException a b c ts x)"
    then obtain a b c ts x where "fst (parse (p, gc)) = Some (DemandException a b c ts x)"
      by blast
    then have "fst (parse_instantaneous_demand (p, gc)) = Some (DemandException a b c ts x)"
      by (rule parse_demand_exception)
    then show "val > 1000 \<or> val < - 1000"
      using dp by (cases "val > 1000 \<or> val < - 1000") simp_all
  next
    assume "val > 1000 \<or> val < - 1000"
    then show "\<exists>a b c ts x. fst (parse (p, gc)) = Some (DemandException a b c ts x)"
      using fail by simp
  qed
  have pub: "fst (publish (p, gc)) = Inl ?exc" if "val > 1000 \<or> val < - 1000"
    using fail [OF that] by (simp add: publish_def)
  have c2: "val > 1000 \<or> val < - 1000 \<longrightarrow>
        parse (p, gc) = (Some ?exc, p\<lparr>timestamp := utc2000_to_epoch t\<rparr>, gc) \<and>
        metric (fst (snd (parse (p, gc)))) = metric p \<and>
        fst (publish (p, gc)) = Inl ?exc"
  proof
    assume out: "val > 1000 \<or> val < - 1000"
    have "metric (fst (snd (parse (p, gc)))) = metric p"
      by (simp only: fail [OF out]) simp
    with fail [OF out] pub [OF out]
    show "parse (p, gc) = (Some ?exc, p\<lparr>timestamp := utc2000_to_epoch t\<rparr>, gc) \<and>
        metric (fst (snd (parse (p, gc)))) = metric p \<and> fst (publish (p, gc)) = Inl ?exc"
      by (intro conjI)
  qed
  have c3: "\<forall>s a b c ts x. fst (parse_current_summation s) \<noteq> Some (DemandException a b c ts x)"
  proof (intro allI)
    fix s a b c ts x
    show "fst (parse_current_summation s) \<noteq> Some (DemandException a b c ts x)"
      using summation_errors [of "fst s" "snd s" "DemandException a b c ts x"] by auto
  qed
  have c4: "\<forall>q cs sd sr sm sv st x y.
        find_current_summation (root q) = Some cs \<and>
        hex_field cs ''SummationDelivered'' = Inr sd \<and>
        hex_field cs ''SummationReceived'' = Inr sr \<and>
        hex_field cs ''Multiplier'' = Inr sm \<and> hex_field cs ''Divisor'' = Inr sv \<and>
        int16_field cs ''TimeStamp'' = Inr st \<and>
        truediv (sd * (if sm \<noteq> 0 then sm else 1)) (if sv \<noteq> 0 then sv else 1) = Inr x \<and>
        truediv (sr * (if sm \<noteq> 0 then sm else 1)) (if sv \<noteq> 0 then sv else 1) = Inr y \<longrightarrow>
        fst (parse_current_summation (q, gc)) = None \<and>
        metric (fst (snd (parse_current_summation (q, gc)))) ''current_summation'' =
          Some [''summation_delivered'' \<mapsto> x, ''summation_received'' \<mapsto> y]"
  proof (intro allI impI)
    fix q :: EagleParse and cs sd sr sm sv st x y
    assume h: "find_current_summation (root q) = Some cs \<and>
        hex_field cs ''SummationDelivered'' = Inr sd \<and>
        hex_field cs ''SummationReceived'' = Inr sr \<and>
        hex_field cs ''Multiplier'' = Inr sm \<and> hex_field cs ''Divisor'' = Inr sv \<and>
        int16_field cs ''TimeStamp'' = Inr st \<and>
        truediv (sd * (if sm \<noteq> 0 then sm else 1)) (if sv \<noteq> 0 then sv else 1) = Inr x \<and>
        truediv (sr * (if sm \<noteq> 0 then sm else 1)) (if sv \<noteq> 0 then sv else 1) = Inr y"
    have "parse_current_summation (q, gc) =
      (None,
       q\<lparr>timestamp := utc2000_to_epoch st,
         metric := (metric q)(''current_summation'' \<mapsto>
                     [''summation_delivered'' \<mapsto> x, ''summation_received'' \<mapsto> y])\<rparr>,
       gc)"
      using h summation_present [of q cs sd sr sm sv st x y gc] by blast
    then show "fst (parse_current_summation (q, gc)) = None \<and>
        metric (fst (snd (parse_current_summation (q, gc)))) ''current_summation'' =
          Some [''summation_delivered'' \<mapsto> x, ''summation_received'' \<mapsto> y]"
      by simp
  qed
  show ?thesis
    by (rule conjI [OF iff conjI [OF c2 conjI [OF c3 c4]]])
qed


lemma high_payload_lookups:
  "findtext_desc high_payload ''DeviceMacId'' = Some device_id"
  "find_desc high_payload ''InstantaneousDemand'' = Some demand_high"
  "find_current_summation high_payload = None"
  "find_desc high_payload ''DeviceInfo'' = None"
  "find_desc high_payload ''NetworkInfo'' = None"
  "map_of (attrib high_payload) ''timestamp'' = Some ''1000000000s''"
  by (simp_all add: high_payload_def demand_high_def xml_eval)

lemma demand_high_fields:
  "hex_field demand_high ''Demand'' = Inr 2000" "hex_field demand_high ''Multiplier'' = Inr 1"
  "hex_field demand_high ''Divisor'' = Inr 1"
  "int16_field demand_high ''TimeStamp'' = Inr 619474819"
  by (simp_all add: demand_high_def demand_section_fields hex_values int16_values)

lemma init_high_payload:
  "EagleParse_init (env_of high_payload) ''body'' ''10.0.0.7'' Map.empty =
    (Inr \<lparr>raw_xml = ''body'', metric = Map.empty, labels_ref = Some device_id,
          state_ref = Some device_id, root = high_payload, timestamp = 1000000000\<rparr>,
     known_device False False)"
  using init_new_device [of "env_of high_payload" "''body''" high_payload 1000000000 device_id
      Map.empty Map.empty "''10.0.0.7''"]
  by (simp add: env_of_simps high_payload_lookups int10_values device_id_nonempty
      known_device_def)

lemma ingest_publish_error:
  assumes "EagleParse_init env raw host gc = (Inr p, gc1)" "fst (publish (p, gc1)) = Inl e"
  shows "fst (snd (ingest env raw host gc)) = []"
proof -
  obtain r p' g' where "publish (p, gc1) = (r, p', g')" by (metis prod_cases3)
  then show ?thesis using assms by (simp add: ingest_def)
qed

lemma decode_parse_error:
  assumes "EagleParse_init env raw host gc = (Inr p, gc1)" "parse (p, gc1) = (Some e, p', g')"
  shows "decode_payload env raw host gc = (Inl e, g')"
  using assms by (simp add: decode_payload_def)

theorem demand_bound_witness:
  "fst (decode_payload (env_of high_payload) ''body'' ''10.0.0.7'' Map.empty) =
     Inl (DemandException 2000 1 1 1566159619 ''body'') \<and>
   fst (snd (ingest (env_of high_payload) ''body'' ''10.0.0.7'' Map.empty)) = [] \<and>
   truediv (2000 * 1) 1 = Inr 2000"
proof -
  let ?p = "\<lparr>raw_xml = ''body'', metric = Map.empty, labels_ref = Some device_id,
          state_ref = Some device_id, root = high_payload, timestamp = 1000000000\<rparr>"
  have "parse (?p, known_device False False) =
          (Some (DemandException 2000 1 1 1566159619 ''body''),
           ?p\<lparr>timestamp := 1566159619\<rparr>, known_device False False) \<and>
        fst (publish (?p, known_device False False)) =
          Inl (DemandException 2000 1 1 1566159619 ''body'')"
    using demand_bound [of ?p demand_high 2000 1 1 619474819 2000 "known_device False False"]
    by (simp add: high_payload_lookups demand_high_fields truediv_values utc2000_to_epoch_def)
  then show ?thesis
    using ingest_publish_error [OF init_high_payload] decode_parse_error [OF init_high_payload]
    by (simp add: truediv_values)
qed

subsection \<open>Multiplier and divisor of zero\<close>

lemma default_to_one_source: "(if x \<noteq> 0 then x else 1) = default_to_one x"
  by (simp add: default_to_one_def)

lemma default_to_one_nonzero: "default_to_one x \<noteq> 0"
  by (simp add: default_to_one_def)

lemma default_to_one_simps: "default_to_one 0 = 1" "default_to_one 1 = 1"
  by (simp_all add: default_to_one_def)

lemma scaled_value_no_zero_division: "scaled_value raw m v \<noteq> Inl ZeroDivisionError"
  using truediv_error [of "raw * default_to_one m" "default_to_one v" ZeroDivisionError]
    default_to_one_nonzero [of v]
  by (auto simp: scaled_value_def)

lemma scaled_value_float:
  "scaled_value raw m v = Inr x \<Longrightarrow> x = binary64 (raw * default_to_one m) (default_to_one v)"
  by (auto simp: scaled_value_def truediv_def Let_def split: if_splits)

lemma demand_by_scaled_value:
  assumes "find_desc (root p) ''InstantaneousDemand'' = Some sec"
    "hex_field sec ''Demand'' = Inr d" "hex_field sec ''Multiplier'' = Inr m"
    "hex_field sec ''Divisor'' = Inr v" "int16_field sec ''TimeStamp'' = Inr t"
  shows "parse_instantaneous_demand (p, gc) =
    (case scaled_value d m v of
       Inl e \<Rightarrow> (Some e, p\<lparr>timestamp := utc2000_to_epoch t\<rparr>, gc)
     | Inr val \<Rightarrow>
         if val > 1000 \<or> val < - 1000
         then (Some (DemandException val (default_to_one m) (default_to_one v)
                       (utc2000_to_epoch t) (raw_xml p)),
               p\<lparr>timestamp := utc2000_to_epoch t\<rparr>, gc)
         else (None,
               p\<lparr>timestamp := utc2000_to_epoch t,
                 metric := (metric p)(''instantaneous_demand'' \<mapsto> [''demand'' \<mapsto> val])\<rparr>,
               gc))"
  using assms
  by (simp add: parse_instantaneous_demand_def Let_def default_to_one_source scaled_value_def
      split del: if_split cong: if_cong sum.case_cong)

lemma summation_by_scaled_value:
  assumes "find_current_summation (root p) = Some sec"
    "hex_field sec ''SummationDelivered'' = Inr sd" "hex_field sec ''SummationReceived'' = Inr sr"
    "hex_field sec ''Multiplier'' = Inr m"
    "hex_field sec ''Divisor'' = Inr v" "int16_field sec ''TimeStamp'' = Inr t"
  shows "parse_current_summation (p, gc) =
    (case scaled_value sd m v of
       Inl e \<Rightarrow> (Some e, p\<lparr>timestamp := utc2000_to_epoch t\<rparr>, gc)
     | Inr x \<Rightarrow>
        (case scaled_value sr m v of
           Inl e \<Rightarrow> (Some e, p\<lparr>timestamp := utc2000_to_epoch t\<rparr>, gc)
         | Inr y \<Rightarrow>
             (None,
              p\<lparr>timestamp := utc2000_to_epoch t,
                metric := (metric p)(''current_summation'' \<mapsto>
                            [''summation_delivered'' \<mapsto> x, ''summation_received'' \<mapsto> y])\<rparr>,
              gc)))"
  using assms
  by (simp add: parse_current_summation_def Let_def default_to_one_source scaled_value_def
      split del: if_split cong: if_cong sum.case_cong)

lemma parse_no_zero_division: "fst (parse (p, gc)) \<noteq> Some ZeroDivisionError"
proof (cases rule: parse_cases [of p gc])
  case (demand e p1)
  then show ?thesis using demand_errors [of p gc e] by auto
next
  case (summation p1 e p2)
  then show ?thesis using summation_errors [of p1 gc e] by auto
next
  case (device_info p1 p2 e g3)
  then show ?thesis using device_info_errors [of p2 gc e] by auto
next
  case (network_info p1 p2 g3 r p4 g4)
  then show ?thesis using network_info_errors [of p2 g3 ZeroDivisionError] by auto
qed


text \<open>
  C5. For a demand section whose fields decode to raw demand \<open>d\<close>, multiplier \<open>m\<close> and
  divisor \<open>v\<close>, what the demand parser returns is determined by the value
  \<open>(d * m') / v'\<close>, where \<open>m'\<close> and \<open>v'\<close> are \<open>m\<close> and \<open>v\<close> with 0 replaced by 1: it
  records that value, or raises on it. The summation parser records the two values
  \<open>(sd * m') / v'\<close> and \<open>(sr * m') / v'\<close>. The value for a multiplier of 0 is the value for a
  multiplier of 1, likewise for the divisor; the division by the divisor is never a division
  by zero, the value is the float nearest to the quotient, and \<^verbatim>\<open>parse\<close> never raises
  \<^verbatim>\<open>ZeroDivisionError\<close>. \<open>0x00000000\<close> decodes to 0 and \<open>0x00000001\<close> to 1.
\<close>

theorem zero_defaults_to_one:
  "(find_desc (root p) ''InstantaneousDemand'' = Some sec \<and>
    hex_field sec ''Demand'' = Inr d \<and> hex_field sec ''Multiplier'' = Inr m \<and>
    hex_field sec ''Divisor'' = Inr v \<and> int16_field sec ''TimeStamp'' = Inr t \<longrightarrow>
    parse_instantaneous_demand (p, gc) =
      (case scaled_value d m v of
         Inl e \<Rightarrow> (Some e, p\<lparr>timestamp := utc2000_to_epoch t\<rparr>, gc)
       | Inr val \<Rightarrow>
           if val > 1000 \<or> val < - 1000
           then (Some (DemandException val (default_to_one m) (default_to_one v)
                         (utc2000_to_epoch t) (raw_xml p)),
                 p\<lparr>timestamp := utc2000_to_epoch t\<rparr>, gc)
           else (None,
                 p\<lparr>timestamp := utc2000_to_epoch t,
                   metric := (metric p)(''instantaneous_demand'' \<mapsto> [''demand'' \<mapsto> val])\<rparr>,
                 gc))) \<and>
   (find_current_summation (root p) = Some cs \<and>
    hex_field cs ''SummationDelivered'' = Inr sd \<and> hex_field cs ''SummationReceived'' = Inr sr \<and>
    hex_field cs ''Multiplier'' = Inr sm \<and> hex_field cs ''Divisor'' = Inr sv \<and>
    int16_field cs ''TimeStamp'' = Inr st \<longrightarrow>
    parse_current_summation (p, gc) =
      (case scaled_value sd sm sv of
         Inl e \<Rightarrow> (Some e, p\<lparr>timestamp := utc2000_to_epoch st\<rparr>, gc)
       | Inr x \<Rightarrow>
          (case scaled_value sr sm sv of
             Inl e \<Rightarrow> (Some e, p\<lparr>timestamp := utc2000_to_epoch st\<rparr>, gc)
           | Inr y \<Rightarrow>
               (None,
                p\<lparr>timestamp := utc2000_to_epoch st,
                  metric := (metric p)(''current_summation'' \<mapsto>
                              [''summation_delivered'' \<mapsto> x, ''summation_received'' \<mapsto> y])\<rparr>,
                gc)))) \<and>
   scaled_value raw 0 dv = scaled_value raw 1 dv \<and>
   scaled_value raw mu 0 = scaled_value raw mu 1 \<and>
   scaled_value raw mu dv = truediv (raw * (if mu = 0 then 1 else mu)) (if dv = 0 then 1 else dv) \<and>
   scaled_value raw mu dv \<noteq> Inl ZeroDivisionError \<and>
   (\<forall>x. scaled_value raw mu dv = Inr x \<longrightarrow>
        x = binary64 (raw * (if mu = 0 then 1 else mu)) (if dv = 0 then 1 else dv)) \<and>
   fst (parse (p, gc)) \<noteq> Some ZeroDivisionError \<and>
   convert_hex_to_int ''0x00000000'' = Inr 0 \<and> convert_hex_to_int ''0x00000001'' = Inr 1"
proof (intro conjI impI allI)
  assume "find_desc (root p) ''InstantaneousDemand'' = Some sec \<and>
    hex_field sec ''Demand'' = Inr d \<and> hex_field sec ''Multiplier'' = Inr m \<and>
    hex_field sec ''Divisor'' = Inr v \<and> int16_field sec ''TimeStamp'' = Inr t"
  then show "parse_instantaneous_demand (p, gc) =
      (case scaled_value d m v of
         Inl e \<Rightarrow> (Some e, p\<lparr>timestamp := utc2000_to_epoch t\<rparr>, gc)
       | Inr val \<Rightarrow>
           if val > 1000 \<or> val < - 1000
           then (Some (DemandException val (default_to_one m) (default_to_one v)
                         (utc2000_to_epoch t) (raw_xml p)),
                 p\<lparr>timestamp := utc2000_to_epoch t\<rparr>, gc)
           else (None,
                 p\<lparr>timestamp := utc2000_to_epoch t,
                   metric := (metric p)(''instantaneous_demand'' \<mapsto> [''demand'' \<mapsto> val])\<rparr>,
                 gc))"
    using demand_by_scaled_value [of p sec d m v t gc] by blast
next
  assume "find_current_summation (root p) = Some cs \<and>
    hex_field cs ''SummationDelivered'' = Inr sd \<and> hex_field cs ''SummationReceived'' = Inr sr \<and>
    hex_field cs ''Multiplier'' = Inr sm \<and> hex_field cs ''Divisor'' = Inr sv \<and>
    int16_field cs ''TimeStamp'' = Inr st"
  then show "parse_current_summation (p, gc) =
      (case scaled_value sd sm sv of
         Inl e \<Rightarrow> (Some e, p\<lparr>timestamp := utc2000_to_epoch st\<rparr>, gc)
       | Inr x \<Rightarrow>
          (case scaled_value sr sm sv of
             Inl e \<Rightarrow> (Some e, p\<lparr>timestamp := utc2000_to_epoch st\<rparr>, gc)
           | Inr y \<Rightarrow>
               (None,
                p\<lparr>timestamp := utc2000_to_epoch st,
                  metric := (metric p)(''current_summation'' \<mapsto>
                              [''summation_delivered'' \<mapsto> x, ''summation_received'' \<mapsto> y])\<rparr>,
                gc)))"
    using summation_by_scaled_value [of p cs sd sr sm sv st gc] by blast
next
  show "scaled_value raw 0 dv = scaled_value raw 1 dv"
    by (simp add: scaled_value_def default_to_one_simps)
next
  show "scaled_value raw mu 0 = scaled_value raw mu 1"
    by (simp add: scaled_value_def default_to_one_simps)
next
  show "scaled_value raw mu dv =
        truediv (raw * (if mu = 0 then 1 else mu)) (if dv = 0 then 1 else dv)"
    by (simp only: scaled_value_def default_to_one_def)
next
  show "scaled_value raw mu dv \<noteq> Inl ZeroDivisionError"
    by (rule scaled_value_no_zero_division)
next
  fix x assume "scaled_value raw mu dv = Inr x"
  then show "x = binary64 (raw * (if mu = 0 then 1 else mu)) (if dv = 0 then 1 else dv)"
    using scaled_value_float [of raw mu dv x] by (simp only: default_to_one_def)
next
  show "fst (parse (p, gc)) \<noteq> Some ZeroDivisionError" by (rule parse_no_zero_division)
next
  show "convert_hex_to_int ''0x00000000'' = Inr 0" by (rule hex_values)
next
  show "convert_hex_to_int ''0x00000001'' = Inr 1" by (rule hex_values)
qed

lemma parser_of_simps:
  "raw_xml (parser_of doc) = ''body''" "metric (parser_of doc) = Map.empty"
  "labels_ref (parser_of doc) = Some device_id" "state_ref (parser_of doc) = Some device_id"
  "root (parser_of doc) = doc" "timestamp (parser_of doc) = 1000000000"
  by (simp_all add: parser_of_def)

lemma known_device_simps:
  "known_device di ni device_id =
     Some \<lparr>labels = [''device_mac_id'' \<mapsto> Some device_id, ''client_host'' \<mapsto> Some ''10.0.0.7''],
           state = \<lparr>device_info_received = di, network_info_received = ni\<rparr>\<rparr>"
  by (simp add: known_device_def)

lemma init_example_new:
  assumes "findtext_desc doc ''DeviceMacId'' = Some device_id"
    "map_of (attrib doc) ''timestamp'' = Some ''1000000000s''"
  shows "EagleParse_init (env_of doc) ''body'' ''10.0.0.7'' Map.empty =
           (Inr (parser_of doc), known_device False False)"
  using init_new_device [of "env_of doc" "''body''" doc 1000000000 device_id
      Map.empty Map.empty "''10.0.0.7''"] assms
  by (simp add: env_of_simps int10_values device_id_nonempty known_device_def parser_of_def)

lemma init_example_known:
  assumes "findtext_desc doc ''DeviceMacId'' = Some device_id"
    "map_of (attrib doc) ''timestamp'' = Some ''1000000000s''"
  shows "EagleParse_init (env_of doc) ''body'' ''10.0.0.7'' (known_device a b) =
           (Inr (parser_of doc), known_device a b)"
  using init_known_device [of "env_of doc" "''body''" doc 1000000000 device_id
      "known_device a b" _ "''10.0.0.7''"] assms
  by (simp add: env_of_simps int10_values device_id_nonempty known_device_simps parser_of_def)

lemma payload_first_section:
  "findtext_desc (payload ts (demand_section me d m v t # rest)) ''DeviceMacId'' = Some device_id"
  "findtext_desc (payload ts (summation_section me sd sr m v t # rest)) ''DeviceMacId'' =
     Some device_id"
  "find_desc (payload ts (demand_section me d m v t # rest)) ''InstantaneousDemand'' =
     Some (demand_section me d m v t)"
  "find_current_summation (payload ts [summation_section me sd sr m v t]) =
     Some (summation_section me sd sr m v t)"
  by (simp_all add: xml_eval)

lemma demand_payload_lookups:
  "findtext_desc demand_payload ''DeviceMacId'' = Some device_id"
  "find_desc demand_payload ''InstantaneousDemand'' = Some demand_ok"
  "find_current_summation demand_payload = None"
  "find_desc demand_payload ''DeviceInfo'' = None"
  "find_desc demand_payload ''NetworkInfo'' = None"
  "map_of (attrib demand_payload) ''timestamp'' = Some ''1000000000s''"
  by (simp_all add: demand_payload_def demand_ok_def xml_eval)

lemma scaled_values:
  "scaled_value 1500 0 1000 = Inr (3 / 2)" "scaled_value 1500 1 1000 = Inr (3 / 2)"
  "scaled_value 5 1 0 = Inr 5" "scaled_value 10000000 0 1000 = Inr 10000"
  "scaled_value 0 0 1000 = Inr 0" "scaled_value 2000 1 1 = Inr 2000"
  "scaled_value 10000000 1 1000 = Inr 10000" "scaled_value 0 1 1000 = Inr 0"
  by (simp_all add: scaled_value_def default_to_one_def float_eval)

theorem zero_defaults_to_one_witness:
  "EagleParse_init (env_of zero_multiplier_payload) ''body'' ''10.0.0.7'' Map.empty =
     (Inr (parser_of zero_multiplier_payload), known_device False False) \<and>
   parse_instantaneous_demand (parser_of zero_multiplier_payload, known_device False False) =
     (None,
      (parser_of zero_multiplier_payload)
        \<lparr>timestamp := 1566159619,
         metric := [''instantaneous_demand'' \<mapsto> [''demand'' \<mapsto> 3 / 2]]\<rparr>,
      known_device False False) \<and>
   EagleParse_init (env_of demand_payload) ''body'' ''10.0.0.7'' Map.empty =
     (Inr (parser_of demand_payload), known_device False False) \<and>
   parse_instantaneous_demand (parser_of demand_payload, known_device False False) =
     (None,
      (parser_of demand_payload)
        \<lparr>timestamp := 1566159619,
         metric := [''instantaneous_demand'' \<mapsto> [''demand'' \<mapsto> 3 / 2]]\<rparr>,
      known_device False False) \<and>
   EagleParse_init (env_of zero_divisor_payload) ''body'' ''10.0.0.7'' Map.empty =
     (Inr (parser_of zero_divisor_payload), known_device False False) \<and>
   parse_instantaneous_demand (parser_of zero_divisor_payload, known_device False False) =
     (None,
      (parser_of zero_divisor_payload)
        \<lparr>timestamp := 1566159619,
         metric := [''instantaneous_demand'' \<mapsto> [''demand'' \<mapsto> 5]]\<rparr>,
      known_device False False) \<and>
   EagleParse_init (env_of zero_summation_payload) ''body'' ''10.0.0.7'' Map.empty =
     (Inr (parser_of zero_summation_payload), known_device False False) \<and>
   parse_current_summation (parser_of zero_summation_payload, known_device False False) =
     (None,
      (parser_of zero_summation_payload)
        \<lparr>timestamp := 1566159632,
         metric := [''current_summation'' \<mapsto>
                      [''summation_delivered'' \<mapsto> 10000, ''summation_received'' \<mapsto> 0]]\<rparr>,
      known_device False False)"
proof -
  have i: "EagleParse_init (env_of zero_multiplier_payload) ''body'' ''10.0.0.7'' Map.empty =
       (Inr (parser_of zero_multiplier_payload), known_device False False)"
    "EagleParse_init (env_of demand_payload) ''body'' ''10.0.0.7'' Map.empty =
       (Inr (parser_of demand_payload), known_device False False)"
    "EagleParse_init (env_of zero_divisor_payload) ''body'' ''10.0.0.7'' Map.empty =
       (Inr (parser_of zero_divisor_payload), known_device False False)"
    "EagleParse_init (env_of zero_summation_payload) ''body'' ''10.0.0.7'' Map.empty =
       (Inr (parser_of zero_summation_payload), known_device False False)"
    by (rule init_example_new;
        simp add: zero_multiplier_payload_def demand_payload_def demand_ok_def
          zero_divisor_payload_def zero_summation_payload_def payload_first_section
          payload_attrib)+
  have a: "parse_instantaneous_demand (parser_of zero_multiplier_payload, known_device False False) =
     (None,
      (parser_of zero_multiplier_payload)
        \<lparr>timestamp := 1566159619,
         metric := [''instantaneous_demand'' \<mapsto> [''demand'' \<mapsto> 3 / 2]]\<rparr>,
      known_device False False)"
    using zero_defaults_to_one [of "parser_of zero_multiplier_payload"
        "demand_section meter_id ''0x000005dc'' ''0x00000000'' ''0x000003e8'' ''0x24ec6f83''"
        1500 0 1000 619474819 "known_device False False"]
    by (simp add: parser_of_simps zero_multiplier_payload_def payload_first_section
        demand_section_fields hex_values int16_values scaled_values utc2000_to_epoch_def)
  have b: "parse_instantaneous_demand (parser_of demand_payload, known_device False False) =
     (None,
      (parser_of demand_payload)
        \<lparr>timestamp := 1566159619,
         metric := [''instantaneous_demand'' \<mapsto> [''demand'' \<mapsto> 3 / 2]]\<rparr>,
      known_device False False)"
    using zero_defaults_to_one [of "parser_of demand_payload" demand_ok
        1500 1 1000 619474819 "known_device False False"]
    by (simp add: parser_of_simps demand_payload_lookups demand_ok_fields scaled_values
        utc2000_to_epoch_def)
  have c: "parse_instantaneous_demand (parser_of zero_divisor_payload, known_device False False) =
     (None,
      (parser_of zero_divisor_payload)
        \<lparr>timestamp := 1566159619,
         metric := [''instantaneous_demand'' \<mapsto> [''demand'' \<mapsto> 5]]\<rparr>,
      known_device False False)"
    using zero_defaults_to_one [of "parser_of zero_divisor_payload"
        "demand_section meter_id ''0x00000005'' ''0x00000001'' ''0x00000000'' ''0x24ec6f83''"
        5 1 0 619474819 "known_device False False"]
    by (simp add: parser_of_simps zero_divisor_payload_def payload_first_section
        demand_section_fields hex_values int16_values scaled_values utc2000_to_epoch_def py_eval)
  have d: "parse_current_summation (parser_of zero_summation_payload, known_device False False) =
     (None,
      (parser_of zero_summation_payload)
        \<lparr>timestamp := 1566159632,
         metric := [''current_summation'' \<mapsto>
                      [''summation_delivered'' \<mapsto> 10000, ''summation_received'' \<mapsto> 0]]\<rparr>,
      known_device False False)"
    using zero_defaults_to_one [where p = "parser_of zero_summation_payload"
        and gc = "known_device False False"
        and cs = "summation_section meter_id ''0x00989680'' ''0x00000000'' ''0x00000000''
          ''0x000003e8'' ''0x24ec6f90''"
        and sd = 10000000 and sr = 0 and sm = 0 and sv = 1000 and st = 619474832]
    by (simp add: parser_of_simps zero_summation_payload_def payload_first_section
        summation_section_fields hex_values int16_values scaled_values utc2000_to_epoch_def)
  show ?thesis
    by (rule conjI [OF i(1) conjI [OF a conjI [OF i(2) conjI [OF b conjI [OF i(3)
        conjI [OF c conjI [OF i(4) d]]]]]]])
qed

subsection \<open>Section timestamps\<close>

lemma demand_decodes_result:
  assumes "find_desc (root p) ''InstantaneousDemand'' = Some ds" "demand_decodes ds t"
  obtains val where
    "parse_instantaneous_demand (p, gc) =
       (None,
        p\<lparr>timestamp := utc2000_to_epoch t,
          metric := (metric p)(''instantaneous_demand'' \<mapsto> [''demand'' \<mapsto> val])\<rparr>,
        gc)"
proof -
  from assms(2) obtain d m v val where
    f: "hex_field ds ''Demand'' = Inr d" "hex_field ds ''Multiplier'' = Inr m"
       "hex_field ds ''Divisor'' = Inr v" "int16_field ds ''TimeStamp'' = Inr t" and
    sv: "scaled_value d m v = Inr val" and r: "- 1000 \<le> val" "val \<le> 1000"
    by (auto simp: demand_decodes_def split: sum.splits)
  have "parse_instantaneous_demand (p, gc) =
       (None,
        p\<lparr>timestamp := utc2000_to_epoch t,
          metric := (metric p)(''instantaneous_demand'' \<mapsto> [''demand'' \<mapsto> val])\<rparr>,
        gc)"
    using demand_by_scaled_value [OF assms(1) f, of gc] sv r by simp
  then show ?thesis by (rule that)
qed

lemma summation_decodes_result:
  assumes "find_current_summation (root p) = Some cs" "summation_decodes cs t"
  obtains x y where
    "parse_current_summation (p, gc) =
       (None,
        p\<lparr>timestamp := utc2000_to_epoch t,
          metric := (metric p)(''current_summation'' \<mapsto>
                      [''summation_delivered'' \<mapsto> x, ''summation_received'' \<mapsto> y])\<rparr>,
        gc)"
proof -
  from assms(2) obtain sd sr m v x y where
    f: "hex_field cs ''SummationDelivered'' = Inr sd" "hex_field cs ''SummationReceived'' = Inr sr"
       "hex_field cs ''Multiplier'' = Inr m" "hex_field cs ''Divisor'' = Inr v"
       "int16_field cs ''TimeStamp'' = Inr t" and
    sv: "scaled_value sd m v = Inr x" "scaled_value sr m v = Inr y"
    by (auto simp: summation_decodes_def split: sum.splits)
  have "parse_current_summation (p, gc) =
       (None,
        p\<lparr>timestamp := utc2000_to_epoch t,
          metric := (metric p)(''current_summation'' \<mapsto>
                      [''summation_delivered'' \<mapsto> x, ''summation_received'' \<mapsto> y])\<rparr>,
        gc)"
    using summation_by_scaled_value [OF assms(1) f, of gc] sv by simp
  then show ?thesis by (rule that)
qed

lemma later_sections_succeed:
  assumes "later_sections_ok (root p)" "state_ref p = labels_ref p"
    "labels_ref p = (case findtext_desc (root p) ''DeviceMacId'' of
                       None \<Rightarrow> None | Some d \<Rightarrow> if d = [] then None else Some d)"
  obtains g3 p4 g4 where "parse_device_info (p, gc) = (None, p, g3)"
    "parse_network_info (p, g3) = (None, p4, g4)" "timestamp p4 = timestamp p"
proof -
  have i: "fst (parse_device_info (p, gc)) = None"
    using assms
    by (auto simp: parse_device_info_def later_sections_ok_def Let_def split: option.splits)
  have n: "fst (parse_network_info (p, g)) = None" for g
    using assms
    by (auto simp: parse_network_info_def later_sections_ok_def Let_def
        split: option.splits sum.splits)
  obtain r g3 where di: "parse_device_info (p, gc) = (r, p, g3)" by (rule device_info_shape)
  obtain r' p4 g4 where ni: "parse_network_info (p, g3) = (r', p4, g4)"
    and t: "timestamp p4 = timestamp p"
    using network_info_shape [of p g3] by metis
  from i di have "r = None" by simp
  moreover from n [of g3] ni have "r' = None" by simp
  ultimately show ?thesis using that di ni t by simp
qed


lemma resolved_after_sections:
  assumes i: "EagleParse_init env raw host gc = (Inr p, gc1)" and ok: "later_sections_ok (root p)"
    and d: "parse_instantaneous_demand (p, gc1) = (None, p1, gc1)"
    and s: "parse_current_summation (p1, gc1) = (None, p2, gc1)"
  shows "resolved_timestamp env raw host gc = Inr (timestamp p2)"
proof -
  have f1: "root p1 = root p" "labels_ref p1 = labels_ref p" "state_ref p1 = state_ref p"
    using demand_frame [of p gc1] d by simp_all
  have f2: "root p2 = root p" "labels_ref p2 = labels_ref p" "state_ref p2 = state_ref p"
    using summation_frame [of p1 gc1] s f1 by simp_all
  obtain g3 p4 g4 where "parse_device_info (p2, gc1) = (None, p2, g3)"
    "parse_network_info (p2, g3) = (None, p4, g4)" "timestamp p4 = timestamp p2"
    using later_sections_succeed [of p2 gc1] ok init_ok(4,5) [OF i] f2 by metis
  then show ?thesis
    by (simp add: resolved_timestamp_def i parse_def d s)
qed

text \<open>
  C6. Take a payload for which the constructor succeeds and whose device-info and
  network-info sections cannot fail. If it has a demand section that decodes and no summation
  section, its resolved timestamp is \<open>utc2000_to_epoch\<close> of the demand section's
  \<^verbatim>\<open>TimeStamp\<close>. If it has a summation section that decodes, and no demand section or one
  that decodes, its resolved timestamp is \<open>utc2000_to_epoch\<close> of the summation section's
  \<^verbatim>\<open>TimeStamp\<close>: the summation section is parsed after the demand section. Conversely,
  whenever a payload has a resolved timestamp and one of these sections, the timestamp is the
  one just described.
\<close>

theorem section_timestamp_supersedes:
  assumes "EagleParse_init env raw host gc = (Inr p, gc1)" "later_sections_ok (root p)"
  shows
    "(find_current_summation (root p) = None \<and>
      find_desc (root p) ''InstantaneousDemand'' = Some ds \<and> demand_decodes ds t \<longrightarrow>
        resolved_timestamp env raw host gc = Inr (utc2000_to_epoch t)) \<and>
     (find_current_summation (root p) = Some cs \<and> summation_decodes cs st \<and>
      (find_desc (root p) ''InstantaneousDemand'' = None \<or>
       find_desc (root p) ''InstantaneousDemand'' = Some ds \<and> demand_decodes ds t) \<longrightarrow>
        resolved_timestamp env raw host gc = Inr (utc2000_to_epoch st)) \<and>
     (\<forall>ts. resolved_timestamp env raw host gc = Inr ts \<longrightarrow>
        (\<forall>c. find_current_summation (root p) = Some c \<longrightarrow>
           (\<exists>n. int16_field c ''TimeStamp'' = Inr n \<and> ts = utc2000_to_epoch n)) \<and>
        (\<forall>d. find_current_summation (root p) = None \<and>
             find_desc (root p) ''InstantaneousDemand'' = Some d \<longrightarrow>
           (\<exists>n. int16_field d ''TimeStamp'' = Inr n \<and> ts = utc2000_to_epoch n)))"
proof (intro conjI impI allI)
  assume h: "find_current_summation (root p) = None \<and>
      find_desc (root p) ''InstantaneousDemand'' = Some ds \<and> demand_decodes ds t"
  then obtain val where d: "parse_instantaneous_demand (p, gc1) =
       (None,
        p\<lparr>timestamp := utc2000_to_epoch t,
          metric := (metric p)(''instantaneous_demand'' \<mapsto> [''demand'' \<mapsto> val])\<rparr>,
        gc1)"
    using demand_decodes_result [of p ds t gc1] by blast
  let ?p1 = "p\<lparr>timestamp := utc2000_to_epoch t,
          metric := (metric p)(''instantaneous_demand'' \<mapsto> [''demand'' \<mapsto> val])\<rparr>"
  have s: "parse_current_summation (?p1, gc1) = (None, ?p1, gc1)"
    using h by (simp add: summation_absent)
  show "resolved_timestamp env raw host gc = Inr (utc2000_to_epoch t)"
    using resolved_after_sections [OF assms d s] by simp
next
  assume h: "find_current_summation (root p) = Some cs \<and> summation_decodes cs st \<and>
      (find_desc (root p) ''InstantaneousDemand'' = None \<or>
       find_desc (root p) ''InstantaneousDemand'' = Some ds \<and> demand_decodes ds t)"
  obtain p1 where d: "parse_instantaneous_demand (p, gc1) = (None, p1, gc1)"
  proof (cases "find_desc (root p) ''InstantaneousDemand''")
    case None
    then show ?thesis using that [of p] by (simp add: demand_absent)
  next
    case (Some x)
    with h have "find_desc (root p) ''InstantaneousDemand'' = Some ds" "demand_decodes ds t"
      by auto
    then show ?thesis using demand_decodes_result [of p ds t gc1] that by metis
  qed
  have "root p1 = root p" using demand_frame [of p gc1] d by simp
  with h have "find_current_summation (root p1) = Some cs" by simp
  then obtain x y where s: "parse_current_summation (p1, gc1) =
       (None,
        p1\<lparr>timestamp := utc2000_to_epoch st,
          metric := (metric p1)(''current_summation'' \<mapsto>
                      [''summation_delivered'' \<mapsto> x, ''summation_received'' \<mapsto> y])\<rparr>,
        gc1)"
    using summation_decodes_result [of p1 cs st gc1] h by blast
  show "resolved_timestamp env raw host gc = Inr (utc2000_to_epoch st)"
    using resolved_after_sections [OF assms d s] by simp
next
  fix ts c
  assume "resolved_timestamp env raw host gc = Inr ts" "find_current_summation (root p) = Some c"
  then show "\<exists>n. int16_field c ''TimeStamp'' = Inr n \<and> ts = utc2000_to_epoch n"
    using resolved_timestamp_sections [of env raw host gc ts "root p"] init_ok(1) [OF assms(1)]
    by blast
next
  fix ts d
  assume "resolved_timestamp env raw host gc = Inr ts"
    "find_current_summation (root p) = None \<and> find_desc (root p) ''InstantaneousDemand'' = Some d"
  then show "\<exists>n. int16_field d ''TimeStamp'' = Inr n \<and> ts = utc2000_to_epoch n"
    using resolved_timestamp_sections [of env raw host gc ts "root p"] init_ok(1) [OF assms(1)]
    by blast
qed

lemma zero_summation_payload_lookups:
  "findtext_desc zero_summation_payload ''DeviceMacId'' = Some device_id"
  "find_desc zero_summation_payload ''InstantaneousDemand'' = None"
  "find_current_summation zero_summation_payload =
     Some (summation_section meter_id ''0x00989680'' ''0x00000000'' ''0x00000000'' ''0x000003e8''
             ''0x24ec6f90'')"
  "find_desc zero_summation_payload ''DeviceInfo'' = None"
  "find_desc zero_summation_payload ''NetworkInfo'' = None"
  "map_of (attrib zero_summation_payload) ''timestamp'' = Some ''1000000000s''"
  by (simp_all add: zero_summation_payload_def xml_eval)

lemma decodes_examples:
  "demand_decodes demand_ok 619474819" "summation_decodes summation_ok 619474832"
  "summation_decodes
     (summation_section meter_id ''0x00989680'' ''0x00000000'' ''0x00000000'' ''0x000003e8''
        ''0x24ec6f90'') 619474832"
  by (simp_all add: demand_decodes_def summation_decodes_def demand_ok_fields
      summation_ok_fields summation_section_fields hex_values int16_values scaled_values)

lemma later_sections_ok_examples:
  "later_sections_ok demand_payload" "later_sections_ok both_payload"
  "later_sections_ok zero_summation_payload"
  by (simp_all add: later_sections_ok_def demand_payload_lookups both_payload_lookups
      zero_summation_payload_lookups)

theorem section_timestamp_supersedes_witness:
  "resolved_timestamp (env_of demand_payload) ''body'' ''10.0.0.7'' Map.empty =
     Inr (utc2000_to_epoch 619474819) \<and>
   resolved_timestamp (env_of both_payload) ''body'' ''10.0.0.7'' Map.empty =
     Inr (utc2000_to_epoch 619474832) \<and>
   resolved_timestamp (env_of zero_summation_payload) ''body'' ''10.0.0.7'' Map.empty =
     Inr (utc2000_to_epoch 619474832) \<and>
   int16_field demand_ok ''TimeStamp'' = Inr 619474819 \<and>
   int16_field summation_ok ''TimeStamp'' = Inr 619474832 \<and>
   utc2000_to_epoch 619474819 = 1566159619 \<and> utc2000_to_epoch 619474832 = 1566159632"
proof -
  have i1: "EagleParse_init (env_of demand_payload) ''body'' ''10.0.0.7'' Map.empty =
      (Inr (parser_of demand_payload), known_device False False)"
    by (rule init_example_new) (simp_all add: demand_payload_lookups)
  have i2: "EagleParse_init (env_of both_payload) ''body'' ''10.0.0.7'' Map.empty =
      (Inr (parser_of both_payload), known_device False False)"
    by (rule init_example_new) (simp_all add: both_payload_lookups)
  have i3: "EagleParse_init (env_of zero_summation_payload) ''body'' ''10.0.0.7'' Map.empty =
      (Inr (parser_of zero_summation_payload), known_device False False)"
    by (rule init_example_new) (simp_all add: zero_summation_payload_lookups)
  have ok: "later_sections_ok (root (parser_of demand_payload))"
    "later_sections_ok (root (parser_of both_payload))"
    "later_sections_ok (root (parser_of zero_summation_payload))"
    by (simp_all add: parser_of_simps later_sections_ok_examples)
  have a: "resolved_timestamp (env_of demand_payload) ''body'' ''10.0.0.7'' Map.empty =
     Inr (utc2000_to_epoch 619474819)"
    using section_timestamp_supersedes [OF i1 ok(1), where ds = demand_ok and t = 619474819,
        THEN conjunct1]
    by (simp add: parser_of_simps demand_payload_lookups decodes_examples)
  have b: "resolved_timestamp (env_of both_payload) ''body'' ''10.0.0.7'' Map.empty =
     Inr (utc2000_to_epoch 619474832)"
    using section_timestamp_supersedes [OF i2 ok(2), where ds = demand_ok and t = 619474819
        and cs = summation_ok and st = 619474832, THEN conjunct2, THEN conjunct1]
    by (simp add: parser_of_simps both_payload_lookups decodes_examples)
  have c: "resolved_timestamp (env_of zero_summation_payload) ''body'' ''10.0.0.7'' Map.empty =
     Inr (utc2000_to_epoch 619474832)"
    using section_timestamp_supersedes [OF i3 ok(3), where ds = demand_ok and t = 619474819
        and cs = "summation_section meter_id ''0x00989680'' ''0x00000000'' ''0x00000000''
          ''0x000003e8'' ''0x24ec6f90''" and st = 619474832, THEN conjunct2, THEN conjunct1]
    by (simp add: parser_of_simps zero_summation_payload_lookups decodes_examples)
  show ?thesis
    using a b c
    by (simp add: demand_ok_fields summation_ok_fields utc2000_to_epoch_def)
qed

end
